theory Spec2Isabelle
  imports Complex_Main "HOL-Library.AList"
begin

section \<open>Local pipeline execution: values, normalisation of executor output, DAG runner\<close>

text \<open>
  The development embeds two modules of the KFP SDK's local runner:
  \<^verbatim>\<open>sdk/python/kfp/local/executor_output_utils.py\<close> (decoding of \<^verbatim>\<open>struct_pb2.Value\<close>
  messages and normalisation of an \<^verbatim>\<open>ExecutorOutput\<close> message) and
  \<^verbatim>\<open>sdk/python/kfp/local/dag_orchestrator.py\<close> (the recursive DAG runner).

  Conventions. A protobuf map field and a Python \<^verbatim>\<open>dict\<close> are association lists in
  iteration order; \<open>AList.update\<close> is Python's item assignment (replace in place, or
  append). The keys of a map are distinct; a theorem that depends on it says so. A Python
  exception is a value \<open>Inl e\<close> of a sum type. A Python \<^verbatim>\<open>float\<close> is a real number or
  one of the three non-finite values; the only operation on floats is \<^verbatim>\<open>int\<close>.
\<close>

subsection \<open>Exceptions\<close>

datatype error =
    ValueError string
  | KeyError string
  | IndexError
  | TypeError
  | OverflowError
  | RecursionError
  | FileNotFoundError string

subsection \<open>Wire values and native values\<close>

datatype pyfloat = FloatVal real | PosInf | NegInf | NaN

text \<open>\<^verbatim>\<open>google.protobuf.struct_pb2.Value\<close>: a oneof \<^verbatim>\<open>kind\<close>, possibly not set.\<close>

datatype pb2_value =
    KindNotSet
  | NullValue
  | NumberValue pyfloat
  | StringValue string
  | BoolValue bool
  | StructValue "(string \<times> pb2_value) list"
  | ListValue "pb2_value list"

text \<open>
  The Python objects that flow through the runner. \<open>'a\<close> is the class of
  \<^verbatim>\<open>dsl.Artifact\<close> instances, built outside these modules.
\<close>

datatype 'a py =
    PyNone
  | PyFloat pyfloat
  | PyInt int
  | PyStr string
  | PyBool bool
  | PyDict "(string \<times> 'a py) list"
  | PyList "'a py list"
  | PyArtifact 'a

text \<open>\<^verbatim>\<open>pb2_value_to_python\<close> and \<^verbatim>\<open>pb2_struct_to_python\<close>; the third function is the
  list comprehension of the \<^verbatim>\<open>list_value\<close> branch.\<close>

fun pb2_value_to_python :: "pb2_value \<Rightarrow> error + 'a py"
  and pb2_struct_to_python :: "(string \<times> pb2_value) list \<Rightarrow> error + (string \<times> 'a py) list"
  and pb2_list_to_python :: "pb2_value list \<Rightarrow> error + 'a py list"
where
  "pb2_value_to_python NullValue = Inr PyNone"
| "pb2_value_to_python (NumberValue x) = Inr (PyFloat x)"
| "pb2_value_to_python (StringValue s) = Inr (PyStr s)"
| "pb2_value_to_python (BoolValue b) = Inr (PyBool b)"
| "pb2_value_to_python (StructValue fs) =
     (case pb2_struct_to_python fs of Inl e \<Rightarrow> Inl e | Inr d \<Rightarrow> Inr (PyDict d))"
| "pb2_value_to_python (ListValue vs) =
     (case pb2_list_to_python vs of Inl e \<Rightarrow> Inl e | Inr xs \<Rightarrow> Inr (PyList xs))"
| "pb2_value_to_python KindNotSet = Inl (ValueError ''Unknown value type'')"
| "pb2_struct_to_python [] = Inr []"
| "pb2_struct_to_python ((k, v) # fs) =
     (case pb2_value_to_python v of
        Inl e \<Rightarrow> Inl e
      | Inr x \<Rightarrow> (case pb2_struct_to_python fs of Inl e \<Rightarrow> Inl e | Inr d \<Rightarrow> Inr ((k, x) # d)))"
| "pb2_list_to_python [] = Inr []"
| "pb2_list_to_python (v # vs) =
     (case pb2_value_to_python v of
        Inl e \<Rightarrow> Inl e
      | Inr x \<Rightarrow> (case pb2_list_to_python vs of Inl e \<Rightarrow> Inl e | Inr xs \<Rightarrow> Inr (x # xs)))"

text \<open>
  Modelled from the spec: \<^verbatim>\<open>pipeline_spec_builder.to_protobuf_value\<close> (the spec's
  \<^verbatim>\<open>toWire\<close>) is not among the sources. The spec makes it the inverse of decoding: it
  wraps a native value in the tag of its kind, structures and lists depth-first, and
  the wire format has a single numeric tag for integers and floats alike. An artifact
  is not a structured value and has no wire form.
\<close>

fun to_protobuf_value :: "'a py \<Rightarrow> error + pb2_value"
  and to_protobuf_struct :: "(string \<times> 'a py) list \<Rightarrow> error + (string \<times> pb2_value) list"
  and to_protobuf_list :: "'a py list \<Rightarrow> error + pb2_value list"
where
  "to_protobuf_value PyNone = Inr NullValue"
| "to_protobuf_value (PyFloat x) = Inr (NumberValue x)"
| "to_protobuf_value (PyInt i) = Inr (NumberValue (FloatVal (of_int i)))"
| "to_protobuf_value (PyStr s) = Inr (StringValue s)"
| "to_protobuf_value (PyBool b) = Inr (BoolValue b)"
| "to_protobuf_value (PyDict d) =
     (case to_protobuf_struct d of Inl e \<Rightarrow> Inl e | Inr fs \<Rightarrow> Inr (StructValue fs))"
| "to_protobuf_value (PyList xs) =
     (case to_protobuf_list xs of Inl e \<Rightarrow> Inl e | Inr vs \<Rightarrow> Inr (ListValue vs))"
| "to_protobuf_value (PyArtifact a) = Inl (ValueError ''Value must be a structured value'')"
| "to_protobuf_struct [] = Inr []"
| "to_protobuf_struct ((k, x) # d) =
     (case to_protobuf_value x of
        Inl e \<Rightarrow> Inl e
      | Inr v \<Rightarrow> (case to_protobuf_struct d of Inl e \<Rightarrow> Inl e | Inr fs \<Rightarrow> Inr ((k, v) # fs)))"
| "to_protobuf_list [] = Inr []"
| "to_protobuf_list (x # xs) =
     (case to_protobuf_value x of
        Inl e \<Rightarrow> Inl e
      | Inr v \<Rightarrow> (case to_protobuf_list xs of Inl e \<Rightarrow> Inl e | Inr vs \<Rightarrow> Inr (v # vs)))"

text \<open>Two predicates for the statements about the codec. A native value is float-numbered
  when it is of kind null, number, string, boolean, list or structure and every number in
  it, at every depth, is a float. Native integers are numbers too, and the encoder
  receives them (\<^verbatim>\<open>json.loads\<close> yields them for the text of an output file); they are
  not float-numbered. A wire value is tagged when its tag is set at every depth.\<close>

fun float_numbered :: "'a py \<Rightarrow> bool"
  and float_numbered_items :: "(string \<times> 'a py) list \<Rightarrow> bool"
  and float_numbered_list :: "'a py list \<Rightarrow> bool"
where
  "float_numbered PyNone = True"
| "float_numbered (PyFloat x) = True"
| "float_numbered (PyInt i) = False"
| "float_numbered (PyStr s) = True"
| "float_numbered (PyBool b) = True"
| "float_numbered (PyDict d) = float_numbered_items d"
| "float_numbered (PyList xs) = float_numbered_list xs"
| "float_numbered (PyArtifact a) = False"
| "float_numbered_items [] = True"
| "float_numbered_items ((k, x) # d) = (float_numbered x \<and> float_numbered_items d)"
| "float_numbered_list [] = True"
| "float_numbered_list (x # xs) = (float_numbered x \<and> float_numbered_list xs)"

fun tagged :: "pb2_value \<Rightarrow> bool"
  and tagged_fields :: "(string \<times> pb2_value) list \<Rightarrow> bool"
  and tagged_list :: "pb2_value list \<Rightarrow> bool"
where
  "tagged KindNotSet = False"
| "tagged NullValue = True"
| "tagged (NumberValue x) = True"
| "tagged (StringValue s) = True"
| "tagged (BoolValue b) = True"
| "tagged (StructValue fs) = tagged_fields fs"
| "tagged (ListValue vs) = tagged_list vs"
| "tagged_fields [] = True"
| "tagged_fields ((k, v) # fs) = (tagged v \<and> tagged_fields fs)"
| "tagged_list [] = True"
| "tagged_list (v # vs) = (tagged v \<and> tagged_list vs)"

subsection \<open>Messages of the pipeline IR\<close>

datatype parameter_type_enum =
    PARAMETER_TYPE_ENUM_UNSPECIFIED
  | NUMBER_DOUBLE
  | NUMBER_INTEGER
  | STRING
  | BOOLEAN
  | LIST
  | STRUCT
  | TASK_FINAL_STATUS

text \<open>\<^verbatim>\<open>RuntimeArtifact\<close>; the \<^verbatim>\<open>ArtifactTypeSchema\<close> is kept as its schema title. An
  \<^verbatim>\<open>ArtifactList\<close> is the list of its \<^verbatim>\<open>artifacts\<close>.\<close>

record runtime_artifact =
  artifact_name :: string
  artifact_type :: string
  artifact_uri :: string
  artifact_metadata :: "(string \<times> pb2_value) list"

record executor_output =
  parameter_values :: "(string \<times> pb2_value) list"
  artifacts :: "(string \<times> runtime_artifact list) list"

text \<open>\<^verbatim>\<open>ExecutorInput.outputs\<close>: each output parameter by its \<^verbatim>\<open>output_file\<close>, each output
  artifact by its declared \<^verbatim>\<open>ArtifactList\<close>.\<close>

record executor_input =
  outputs_parameters :: "(string \<times> string) list"
  outputs_artifacts :: "(string \<times> runtime_artifact list) list"
  outputs_output_file :: string

text \<open>\<^verbatim>\<open>TaskInputsSpec.InputParameterSpec\<close> and \<^verbatim>\<open>InputArtifactSpec\<close>, by their oneof
  \<^verbatim>\<open>kind\<close>. A \<^verbatim>\<open>runtime_value\<close> is split by its own oneof \<^verbatim>\<open>value\<close>: a constant, or
  anything else.\<close>

datatype input_parameter_kind =
    TaskOutputParameter string string
  | RuntimeValueConstant pb2_value
  | RuntimeValueNotConstant
  | ComponentInputParameter string
  | TaskFinalStatus string
  | ParameterKindNotSet

datatype input_artifact_kind =
    TaskOutputArtifact string string
  | ComponentInputArtifact string
  | ArtifactKindNotSet

datatype iterator_kind = ArtifactIterator | ParameterIterator

record task_spec =
  component_ref_name :: string
  inputs_parameters :: "(string \<times> input_parameter_kind) list"
  inputs_artifacts :: "(string \<times> input_artifact_kind) list"
  trigger_policy_condition :: string
  iterator :: "iterator_kind option"

text \<open>\<^verbatim>\<open>DagOutputsSpec\<close>: a parameter selector by its oneof \<^verbatim>\<open>kind\<close>, an artifact
  selector spec as its list of (producer subtask, output artifact key).\<close>

datatype parameter_selector_kind =
    ValueFromParameter string string
  | ValueFromOneof
  | SelectorKindNotSet

record dag_spec =
  tasks :: "(string \<times> task_spec) list"
  dag_outputs_parameters :: "(string \<times> parameter_selector_kind) list"
  dag_outputs_artifacts :: "(string \<times> (string \<times> string) list) list"

datatype implementation = Dag dag_spec | ExecutorLabel string | ImplementationNotSet

record input_parameter_spec =
  parameter_type :: parameter_type_enum
  default_value :: pb2_value

text \<open>\<^verbatim>\<open>ComponentSpec\<close>. An artifact definition is kept as its \<^verbatim>\<open>is_artifact_list\<close> flag,
  an output parameter definition as its \<^verbatim>\<open>parameter_type\<close>.\<close>

record component_spec =
  input_definitions_parameters :: "(string \<times> input_parameter_spec) list"
  input_definitions_artifacts :: "(string \<times> bool) list"
  output_definitions_parameters :: "(string \<times> parameter_type_enum) list"
  output_definitions_artifacts :: "(string \<times> bool) list"
  implementation :: implementation

text \<open>\<^verbatim>\<open>m[k]\<close> on a protobuf map field whose values are messages: a missing key reads as the
  default message.\<close>

definition pb_map_get :: "'v \<Rightarrow> (string \<times> 'v) list \<Rightarrow> string \<Rightarrow> 'v" where
  "pb_map_get dflt m k = (case map_of m k of None \<Rightarrow> dflt | Some v \<Rightarrow> v)"

subsection \<open>Normalisation of an executor output\<close>

text \<open>What the module takes from outside: the local file system (the text of the file at a
  path, if there is one), \<^verbatim>\<open>json.loads\<close>, Python's \<^verbatim>\<open>int\<close> on a \<^verbatim>\<open>str\<close>, and
  \<^verbatim>\<open>executor.create_artifact_instance\<close> after \<^verbatim>\<open>json_format.MessageToDict\<close>.\<close>

record 'a platform =
  files :: "string \<Rightarrow> string option"
  json_loads :: "string \<Rightarrow> error + 'a py"
  int_of_str :: "string \<Rightarrow> error + int"
  create_artifact_instance :: "runtime_artifact \<Rightarrow> 'a"

text \<open>Python's \<^verbatim>\<open>int(x)\<close>: a float is truncated towards zero, the non-finite floats and
  the objects with no integer conversion raise.\<close>

fun py_int :: "'a platform \<Rightarrow> 'a py \<Rightarrow> error + int" where
  "py_int pf (PyInt i) = Inr i"
| "py_int pf (PyBool b) = Inr (if b then 1 else 0)"
| "py_int pf (PyFloat (FloatVal r)) = Inr (if 0 \<le> r then \<lfloor>r\<rfloor> else \<lceil>r\<rceil>)"
| "py_int pf (PyFloat NaN) = Inl (ValueError ''cannot convert float NaN to integer'')"
| "py_int pf (PyFloat PosInf) = Inl OverflowError"
| "py_int pf (PyFloat NegInf) = Inl OverflowError"
| "py_int pf (PyStr s) = int_of_str pf s"
| "py_int pf PyNone = Inl TypeError"
| "py_int pf (PyDict d) = Inl TypeError"
| "py_int pf (PyList xs) = Inl TypeError"
| "py_int pf (PyArtifact a) = Inl TypeError"

text \<open>\<^verbatim>\<open>cast_floats_as_ints_to_floats\<close>: \<^verbatim>\<open>outputs_dict[key]\<close> raises on a missing key.\<close>

fun cast_floats_as_ints_to_floats ::
  "'a platform \<Rightarrow> (string \<times> 'a py) list \<Rightarrow> string list \<Rightarrow> error + (string \<times> 'a py) list"
where
  "cast_floats_as_ints_to_floats pf outputs_dict [] = Inr outputs_dict"
| "cast_floats_as_ints_to_floats pf outputs_dict (float_output_key # rest) =
     (case map_of outputs_dict float_output_key of
        None \<Rightarrow> Inl (KeyError float_output_key)
      | Some v \<Rightarrow>
          (case py_int pf v of
             Inl e \<Rightarrow> Inl e
           | Inr i \<Rightarrow>
               cast_floats_as_ints_to_floats pf
                 (AList.update float_output_key (PyInt i) outputs_dict) rest))"

text \<open>\<^verbatim>\<open>special_dsl_outputpath_read\<close>.\<close>

definition special_dsl_outputpath_read :: "'a platform \<Rightarrow> string \<Rightarrow> bool \<Rightarrow> error + 'a py" where
  "special_dsl_outputpath_read pf output_file is_string =
     (case files pf output_file of
        None \<Rightarrow> Inl (FileNotFoundError output_file)
      | Some parameter_value \<Rightarrow>
          if is_string then Inr (PyStr parameter_value) else json_loads pf parameter_value)"

text \<open>\<^verbatim>\<open>merge_dsl_output_file_parameters_to_executor_output\<close>: the loop over
  \<^verbatim>\<open>executor_input.outputs.parameters.items()\<close>, the parameter map of the executor
  output as the state. \<^verbatim>\<open>os.path.exists\<close> is the presence of the file.\<close>

fun merge_output_file_parameters ::
  "'a platform \<Rightarrow> component_spec \<Rightarrow> (string \<times> string) list \<Rightarrow> (string \<times> pb2_value) list \<Rightarrow>
     error + (string \<times> pb2_value) list"
where
  "merge_output_file_parameters pf component_spec [] values = Inr values"
| "merge_output_file_parameters pf component_spec ((parameter_key, output_file) # rest) values =
     (if files pf output_file \<noteq> None then
        (let is_string =
               (pb_map_get PARAMETER_TYPE_ENUM_UNSPECIFIED
                  (output_definitions_parameters component_spec) parameter_key = STRING)
         in case special_dsl_outputpath_read pf output_file is_string of
              Inl e \<Rightarrow> Inl e
            | Inr parameter_value \<Rightarrow>
                (case to_protobuf_value parameter_value of
                   Inl e \<Rightarrow> Inl e
                 | Inr v \<Rightarrow>
                     merge_output_file_parameters pf component_spec rest
                       (AList.update parameter_key v values)))
      else merge_output_file_parameters pf component_spec rest values)"

definition merge_dsl_output_file_parameters_to_executor_output ::
  "'a platform \<Rightarrow> executor_input \<Rightarrow> executor_output \<Rightarrow> component_spec \<Rightarrow> error + executor_output"
where
  "merge_dsl_output_file_parameters_to_executor_output pf executor_input executor_output component_spec =
     (case merge_output_file_parameters pf component_spec (outputs_parameters executor_input)
             (parameter_values executor_output) of
        Inl e \<Rightarrow> Inl e
      | Inr values \<Rightarrow> Inr (executor_output\<lparr>parameter_values := values\<rparr>))"

text \<open>\<^verbatim>\<open>artifact_list_to_dsl_artifact\<close>, with \<^verbatim>\<open>runtime_artifact_to_dsl_artifact\<close> inlined;
  \<^verbatim>\<open>dsl_artifacts[0]\<close> raises on the empty list.\<close>

definition artifact_list_to_dsl_artifact ::
  "'a platform \<Rightarrow> runtime_artifact list \<Rightarrow> bool \<Rightarrow> error + 'a py"
where
  "artifact_list_to_dsl_artifact pf artifact_list is_artifact_list =
     (let dsl_artifacts = map (create_artifact_instance pf) artifact_list
      in if is_artifact_list then Inr (PyList (map PyArtifact dsl_artifacts))
         else (case dsl_artifacts of [] \<Rightarrow> Inl IndexError | a # _ \<Rightarrow> Inr (PyArtifact a)))"

text \<open>\<^verbatim>\<open>add_type_to_executor_output\<close>: the inner loop over one artifact list, reading
  \<^verbatim>\<open>executor_input.outputs.artifacts[key].artifacts[0].type\<close> once per artifact, and the
  outer loop over \<^verbatim>\<open>executor_output.artifacts.items()\<close>.\<close>

fun add_type_to_artifacts ::
  "runtime_artifact list \<Rightarrow> runtime_artifact list \<Rightarrow> error + runtime_artifact list"
where
  "add_type_to_artifacts declared [] = Inr []"
| "add_type_to_artifacts declared (artifact # rest) =
     (case declared of
        [] \<Rightarrow> Inl IndexError
      | d # _ \<Rightarrow>
          (case add_type_to_artifacts declared rest of
             Inl e \<Rightarrow> Inl e
           | Inr rest' \<Rightarrow> Inr (artifact\<lparr>artifact_type := artifact_type d\<rparr> # rest')))"

fun add_type_to_artifact_lists ::
  "executor_input \<Rightarrow> (string \<times> runtime_artifact list) list \<Rightarrow>
     error + (string \<times> runtime_artifact list) list"
where
  "add_type_to_artifact_lists executor_input [] = Inr []"
| "add_type_to_artifact_lists executor_input ((key, artifact_list) # rest) =
     (case add_type_to_artifacts (pb_map_get [] (outputs_artifacts executor_input) key) artifact_list of
        Inl e \<Rightarrow> Inl e
      | Inr typed \<Rightarrow>
          (case add_type_to_artifact_lists executor_input rest of
             Inl e \<Rightarrow> Inl e
           | Inr rest' \<Rightarrow> Inr ((key, typed) # rest')))"

definition add_type_to_executor_output ::
  "executor_input \<Rightarrow> executor_output \<Rightarrow> error + executor_output"
where
  "add_type_to_executor_output executor_input executor_output =
     (case add_type_to_artifact_lists executor_input (artifacts executor_output) of
        Inl e \<Rightarrow> Inl e
      | Inr typed \<Rightarrow> Inr (executor_output\<lparr>artifacts := typed\<rparr>))"

text \<open>A dict comprehension over the items of a protobuf map, and \<^verbatim>\<open>{**a, **b}\<close>.\<close>

fun dict_comprehension ::
  "(string \<Rightarrow> 'v \<Rightarrow> error + 'b) \<Rightarrow> (string \<times> 'v) list \<Rightarrow> error + (string \<times> 'b) list"
where
  "dict_comprehension f [] = Inr []"
| "dict_comprehension f ((k, v) # rest) =
     (case f k v of
        Inl e \<Rightarrow> Inl e
      | Inr y \<Rightarrow> (case dict_comprehension f rest of Inl e \<Rightarrow> Inl e | Inr d \<Rightarrow> Inr ((k, y) # d)))"

definition dict_merge :: "(string \<times> 'b) list \<Rightarrow> (string \<times> 'b) list \<Rightarrow> (string \<times> 'b) list" where
  "dict_merge a b = fold (\<lambda>(k, v). AList.update k v) b a"

text \<open>\<^verbatim>\<open>get_outputs_from_executor_output\<close>.\<close>

definition get_outputs_from_executor_output ::
  "'a platform \<Rightarrow> executor_output \<Rightarrow> executor_input \<Rightarrow> component_spec \<Rightarrow>
     error + (string \<times> 'a py) list"
where
  "get_outputs_from_executor_output pf executor_output executor_input component_spec =
     (case add_type_to_executor_output executor_input executor_output of
        Inl e \<Rightarrow> Inl e
      | Inr typed_output \<Rightarrow>
     (case merge_dsl_output_file_parameters_to_executor_output pf executor_input typed_output
             component_spec of
        Inl e \<Rightarrow> Inl e
      | Inr merged_output \<Rightarrow>
     (case dict_comprehension (\<lambda>param_name v. pb2_value_to_python v)
             (parameter_values merged_output) of
        Inl e \<Rightarrow> Inl e
      | Inr output_parameters \<Rightarrow>
     (case dict_comprehension
             (\<lambda>artifact_name artifact_list.
                artifact_list_to_dsl_artifact pf artifact_list
                  (pb_map_get False (output_definitions_artifacts component_spec) artifact_name))
             (artifacts merged_output) of
        Inl e \<Rightarrow> Inl e
      | Inr output_artifacts \<Rightarrow>
          (let outputs_dict = dict_merge output_parameters output_artifacts;
               outputs_typed_int =
                 map fst (filter (\<lambda>(output_param_name, t). t = NUMBER_INTEGER)
                            (output_definitions_parameters component_spec))
           in cast_floats_as_ints_to_floats pf outputs_dict outputs_typed_int)))))"

subsection \<open>The task sequencer\<close>

text \<open>
  Modelled from the spec: \<^verbatim>\<open>graph_utils.topological_sort_tasks\<close> is not among the
  sources. The spec asks for a dependency-edge topological ordering with an edge from
  task A to task B whenever the input wiring of B references an output of A, ties
  broken by declaration order, and a malformed-graph error when no order exists. The
  result is a stack to pop from.

  First the producers of a task: the tasks whose outputs its input wiring references.
\<close>

fun parameter_producer :: "input_parameter_kind \<Rightarrow> string list" where
  "parameter_producer (TaskOutputParameter producer_task output_parameter_key) = [producer_task]"
| "parameter_producer _ = []"

fun artifact_producer :: "input_artifact_kind \<Rightarrow> string list" where
  "artifact_producer (TaskOutputArtifact producer_task output_artifact_key) = [producer_task]"
| "artifact_producer _ = []"

definition producers :: "task_spec \<Rightarrow> string list" where
  "producers task =
     concat (map (parameter_producer \<circ> snd) (inputs_parameters task)) @
     concat (map (artifact_producer \<circ> snd) (inputs_artifacts task))"

definition ready :: "string list \<Rightarrow> string \<times> task_spec \<Rightarrow> bool" where
  "ready done task = list_all (\<lambda>producer. producer \<in> set done) (producers (snd task))"

text \<open>
  Modelled from the spec: the ordering itself. As long as tasks are pending, the model
  emits the first pending task in declaration order all of whose producers have been
  emitted; when tasks are pending and none is ready, it raises. The result is the stack
  the runner pops from: the task to run first is its last element.
\<close>

function sequence_tasks :: "(string \<times> task_spec) list \<Rightarrow> string list \<Rightarrow> error + string list" where
  "sequence_tasks pending done =
     (if pending = [] then Inr done
      else (case find (ready done) pending of
              None \<Rightarrow> Inl (ValueError ''Pipeline has a cycle or an unknown producer task'')
            | Some task \<Rightarrow> sequence_tasks (remove1 task pending) (done @ [fst task])))"
  by pat_completeness auto
termination
  by (relation "measure (\<lambda>(pending, done). length pending)")
     (auto simp: find_Some_iff length_remove1 in_set_conv_nth intro!: diff_less)

definition topological_sort_tasks :: "(string \<times> task_spec) list \<Rightarrow> error + string list" where
  "topological_sort_tasks task_map =
     (case sequence_tasks task_map [] of Inl e \<Rightarrow> Inl e | Inr order \<Rightarrow> Inr (rev order))"

text \<open>The order in which the runner takes tasks from the stack:
  \<^verbatim>\<open>while sorted_tasks: task_name = sorted_tasks.pop()\<close>.\<close>

definition dispatch_order :: "string list \<Rightarrow> string list" where
  "dispatch_order sorted_tasks = rev sorted_tasks"

text \<open>The dependency edges of a task map, what makes it well formed, and the position
  of a task in an order.\<close>

definition dependency_edges :: "(string \<times> task_spec) list \<Rightarrow> (string \<times> string) set" where
  "dependency_edges task_map =
     {(a, b). \<exists>task. (b, task) \<in> set task_map \<and> a \<in> set (producers task)}"

definition well_formed :: "(string \<times> task_spec) list \<Rightarrow> bool" where
  "well_formed task_map \<longleftrightarrow>
     distinct (map fst task_map) \<and>
     list_all (\<lambda>task. list_all (\<lambda>producer. producer \<in> set (map fst task_map)) (producers (snd task)))
       task_map"

fun index_of :: "'b list \<Rightarrow> 'b \<Rightarrow> nat" where
  "index_of [] x = 0"
| "index_of (y # ys) x = (if x = y then 0 else Suc (index_of ys x))"

subsection \<open>The I/O store\<close>

text \<open>
  Modelled from the spec: the class \<^verbatim>\<open>io.IOStore\<close> is not among the sources. The spec
  gives it two partitions, the parent inputs and the outputs of each task by output key,
  with the four operations below; a lookup of an entry that does not exist fails loudly.
  Writing an entry once is the scheduler's convention, so a put stores.
\<close>

record 'a io_store =
  parent_input_data :: "(string \<times> 'a py) list"
  task_output_data :: "(string \<times> (string \<times> 'a py) list) list"

definition empty_io_store :: "'a io_store" where
  "empty_io_store = \<lparr>parent_input_data = [], task_output_data = []\<rparr>"

definition put_parent_input :: "string \<Rightarrow> 'a py \<Rightarrow> 'a io_store \<Rightarrow> 'a io_store" where
  "put_parent_input key v store =
     store\<lparr>parent_input_data := AList.update key v (parent_input_data store)\<rparr>"

definition get_parent_input :: "'a io_store \<Rightarrow> string \<Rightarrow> error + 'a py" where
  "get_parent_input store key =
     (case map_of (parent_input_data store) key of
        None \<Rightarrow> Inl (ValueError (''Parent pipeline input argument not found: '' @ key))
      | Some v \<Rightarrow> Inr v)"

definition put_task_output :: "string \<Rightarrow> string \<Rightarrow> 'a py \<Rightarrow> 'a io_store \<Rightarrow> 'a io_store" where
  "put_task_output task_name key v store =
     store\<lparr>task_output_data :=
       AList.update task_name
         (AList.update key v (pb_map_get [] (task_output_data store) task_name))
         (task_output_data store)\<rparr>"

definition get_task_output :: "'a io_store \<Rightarrow> string \<Rightarrow> string \<Rightarrow> error + 'a py" where
  "get_task_output store task_name key =
     (case map_of (task_output_data store) task_name of
        None \<Rightarrow> Inl (ValueError (''Tried to get output from a task that has none: '' @ task_name))
      | Some outputs \<Rightarrow>
          (case map_of outputs key of
             None \<Rightarrow> Inl (ValueError (''Task has no output: '' @ key))
           | Some v \<Rightarrow> Inr v))"

subsection \<open>The DAG runner\<close>

datatype status = SUCCESS | FAILURE

text \<open>\<^verbatim>\<open>ExecutorSpec\<close> by its oneof \<^verbatim>\<open>spec\<close>, the payload standing for the configuration.\<close>

datatype executor_spec = Container string | Importer string | OtherExecutorSpec

text \<open>\<^verbatim>\<open>bind_defaults_to_dag_arguments\<close>: the loop over
  \<^verbatim>\<open>dag_inputs_spec.parameters.items()\<close>, the dictionary being built as the state.\<close>

fun bind_defaults ::
  "(string \<times> 'a py) list \<Rightarrow> (string \<times> input_parameter_spec) list \<Rightarrow> (string \<times> 'a py) list \<Rightarrow>
     error + (string \<times> 'a py) list"
where
  "bind_defaults dag_arguments [] dag_arguments_with_defaults = Inr dag_arguments_with_defaults"
| "bind_defaults dag_arguments ((input_name, input_spec) # rest) dag_arguments_with_defaults =
     (case map_of dag_arguments input_name of
        None \<Rightarrow>
          (case pb2_value_to_python (default_value input_spec) of
             Inl e \<Rightarrow> Inl e
           | Inr v \<Rightarrow>
               bind_defaults dag_arguments rest (AList.update input_name v dag_arguments_with_defaults))
      | Some v \<Rightarrow>
          bind_defaults dag_arguments rest (AList.update input_name v dag_arguments_with_defaults))"

definition bind_defaults_to_dag_arguments ::
  "(string \<times> 'a py) list \<Rightarrow> component_spec \<Rightarrow> error + (string \<times> 'a py) list"
where
  "bind_defaults_to_dag_arguments dag_arguments dag_component_spec =
     bind_defaults dag_arguments (input_definitions_parameters dag_component_spec) []"

text \<open>\<^verbatim>\<open>make_task_arguments\<close>: one input parameter, one input artifact, the two loops.\<close>

fun parameter_argument :: "'a io_store \<Rightarrow> string \<Rightarrow> input_parameter_kind \<Rightarrow> error + 'a py" where
  "parameter_argument store input_name (TaskOutputParameter producer_task output_parameter_key) =
     get_task_output store producer_task output_parameter_key"
| "parameter_argument store input_name (RuntimeValueConstant c) = pb2_value_to_python c"
| "parameter_argument store input_name RuntimeValueNotConstant = Inl (ValueError ''Expected constant.'')"
| "parameter_argument store input_name (ComponentInputParameter name) = get_parent_input store name"
| "parameter_argument store input_name (TaskFinalStatus producer_task) =
     Inl (ValueError ''dsl.ExitHandler is not yet support for local execution.'')"
| "parameter_argument store input_name ParameterKindNotSet =
     Inl (ValueError (''Invalid or missing input for '' @ input_name))"

fun artifact_argument :: "'a io_store \<Rightarrow> string \<Rightarrow> input_artifact_kind \<Rightarrow> error + 'a py" where
  "artifact_argument store input_name (TaskOutputArtifact producer_task output_artifact_key) =
     get_task_output store producer_task output_artifact_key"
| "artifact_argument store input_name (ComponentInputArtifact name) = get_parent_input store name"
| "artifact_argument store input_name ArtifactKindNotSet =
     Inl (ValueError (''Invalid or missing input for '' @ input_name))"

fun make_arguments ::
  "(string \<Rightarrow> 'k \<Rightarrow> error + 'a py) \<Rightarrow> (string \<times> 'k) list \<Rightarrow> (string \<times> 'a py) list \<Rightarrow>
     error + (string \<times> 'a py) list"
where
  "make_arguments resolve [] task_arguments = Inr task_arguments"
| "make_arguments resolve ((input_name, input_spec) # rest) task_arguments =
     (case resolve input_name input_spec of
        Inl e \<Rightarrow> Inl e
      | Inr v \<Rightarrow> make_arguments resolve rest (AList.update input_name v task_arguments))"

definition make_task_arguments :: "task_spec \<Rightarrow> 'a io_store \<Rightarrow> error + (string \<times> 'a py) list" where
  "make_task_arguments task_spec store =
     (case make_arguments (parameter_argument store) (inputs_parameters task_spec) [] of
        Inl e \<Rightarrow> Inl e
      | Inr task_arguments \<Rightarrow>
          make_arguments (artifact_argument store) (inputs_artifacts task_spec) task_arguments)"

text \<open>\<^verbatim>\<open>get_dag_output_parameters\<close>, \<^verbatim>\<open>get_dag_output_artifacts\<close>, \<^verbatim>\<open>get_dag_outputs\<close>.\<close>

fun output_parameter_value :: "'a io_store \<Rightarrow> string \<Rightarrow> parameter_selector_kind \<Rightarrow> error + 'a py" where
  "output_parameter_value store root_output_key (ValueFromParameter producer_subtask output_parameter_key) =
     get_task_output store producer_subtask output_parameter_key"
| "output_parameter_value store root_output_key ValueFromOneof =
     Inl (ValueError ''dsl.OneOf is not yet supported in local execution.'')"
| "output_parameter_value store root_output_key SelectorKindNotSet =
     Inl (ValueError ''Got unknown parameter_selector_spec kind'')"

fun output_artifact_value :: "'a io_store \<Rightarrow> string \<Rightarrow> (string \<times> string) list \<Rightarrow> error + 'a py" where
  "output_artifact_value store root_output_key [(producer_subtask, output_artifact_key)] =
     get_task_output store producer_subtask output_artifact_key"
| "output_artifact_value store root_output_key artifact_selectors =
     Inl (ValueError ''Expected 1 artifact in ArtifactSelectorSpec.'')"

definition get_dag_output_parameters :: "dag_spec \<Rightarrow> 'a io_store \<Rightarrow> error + (string \<times> 'a py) list" where
  "get_dag_output_parameters dag store =
     make_arguments (output_parameter_value store) (dag_outputs_parameters dag) []"

definition get_dag_output_artifacts :: "dag_spec \<Rightarrow> 'a io_store \<Rightarrow> error + (string \<times> 'a py) list" where
  "get_dag_output_artifacts dag store =
     make_arguments (output_artifact_value store) (dag_outputs_artifacts dag) []"

definition get_dag_outputs :: "dag_spec \<Rightarrow> 'a io_store \<Rightarrow> error + (string \<times> 'a py) list" where
  "get_dag_outputs dag store =
     (case get_dag_output_parameters dag store of
        Inl e \<Rightarrow> Inl e
      | Inr output_params \<Rightarrow>
          (case get_dag_output_artifacts dag store of
             Inl e \<Rightarrow> Inl e
           | Inr output_artifacts \<Rightarrow> Inr (dict_merge output_params output_artifacts)))"

text \<open>\<^verbatim>\<open>validate_task_spec_not_loop_or_condition\<close>: a non-empty condition string is truthy,
  \<^verbatim>\<open>WhichOneof('iterator')\<close> is truthy when an iterator is set.\<close>

definition validate_task_spec_not_loop_or_condition :: "task_spec \<Rightarrow> error + unit" where
  "validate_task_spec_not_loop_or_condition task_spec =
     (if trigger_policy_condition task_spec \<noteq> [] then
        Inl (ValueError ''dsl.Condition is not supported by local pipeline execution.'')
      else if iterator task_spec \<noteq> None then
        Inl (ValueError ''dsl.ParallelFor is not supported by local pipeline execution.'')
      else Inr ())"

text \<open>
  What the runner calls outside the module: \<^verbatim>\<open>importer_handler.run_importer\<close> and
  \<^verbatim>\<open>task_dispatcher.run_single_task_implementation\<close>. Either runs a step in the world
  \<open>'w\<close> and returns the outputs and the status, or raises. The arguments that
  \<^verbatim>\<open>run_dag\<close> passes on unchanged at every level (resource name, pipeline root, runner,
  pipeline id) are part of the collaborator.
\<close>

type_synonym ('a, 'w) collaborator =
  "'w \<Rightarrow> string \<Rightarrow> component_spec \<Rightarrow> executor_spec \<Rightarrow> (string \<times> 'a py) list \<Rightarrow>
     'w \<times> (error + (string \<times> 'a py) list \<times> status)"

record ('a, 'w) collaborators =
  run_importer :: "('a, 'w) collaborator"
  run_single_task_implementation :: "('a, 'w) collaborator"

text \<open>The state of a run: the world of the collaborators, and the trace of the tasks
  handed to a collaborator so far, each with the status it returned or the exception it
  raised.\<close>

record 'w run_state =
  world :: 'w
  dispatched :: "(string \<times> (error + status)) list"

definition call_collaborator ::
  "('a, 'w) collaborator \<Rightarrow> string \<Rightarrow> string \<Rightarrow> component_spec \<Rightarrow> executor_spec \<Rightarrow>
     (string \<times> 'a py) list \<Rightarrow> 'w run_state \<Rightarrow>
     (error + (string \<times> 'a py) list \<times> status \<times> string option) \<times> 'w run_state"
where
  "call_collaborator run task_name component_name component_spec executor_spec arguments st =
     (case run (world st) component_name component_spec executor_spec arguments of
        (w, Inl e) \<Rightarrow> (Inl e, \<lparr>world = w, dispatched = dispatched st @ [(task_name, Inl e)]\<rparr>)
      | (w, Inr (outputs, task_status)) \<Rightarrow>
          (Inr (outputs, task_status, if task_status = FAILURE then Some task_name else None),
           \<lparr>world = w, dispatched = dispatched st @ [(task_name, Inr task_status)]\<rparr>))"

definition empty_task_spec :: task_spec where
  "empty_task_spec =
     \<lparr>component_ref_name = [], inputs_parameters = [], inputs_artifacts = [],
      trigger_policy_condition = [], iterator = None\<rparr>"

definition empty_dag_spec :: dag_spec where
  "empty_dag_spec = \<lparr>tasks = [], dag_outputs_parameters = [], dag_outputs_artifacts = []\<rparr>"

text \<open>\<^verbatim>\<open>dag_component_spec.dag\<close>: the default message when the implementation is not a DAG.\<close>

definition dag_of :: "component_spec \<Rightarrow> dag_spec" where
  "dag_of component_spec =
     (case implementation component_spec of Dag dag \<Rightarrow> dag | _ \<Rightarrow> empty_dag_spec)"

text \<open>The update of the store on success: the loop over \<^verbatim>\<open>outputs.items()\<close>.\<close>

definition put_task_outputs :: "string \<Rightarrow> (string \<times> 'a py) list \<Rightarrow> 'a io_store \<Rightarrow> 'a io_store" where
  "put_task_outputs task_name outputs store =
     fold (\<lambda>(key, output). put_task_output task_name key output) outputs store"

text \<open>
  \<^verbatim>\<open>run_dag\<close>. The first argument after the collaborators is the number of nested calls
  that Python's recursion limit still allows; at zero the call raises. \<open>run_tasks\<close> is
  the \<^verbatim>\<open>while\<close> loop over the tasks in dispatch order, returning \<open>Some\<close> result when it
  leaves \<^verbatim>\<open>run_dag\<close> early and \<open>None\<close> when it runs to its end; \<open>dispatch_task\<close> is the
  branch on the implementation of the task's component.
\<close>

function run_dag ::
  "('a, 'w) collaborators \<Rightarrow> nat \<Rightarrow> component_spec \<Rightarrow> (string \<times> executor_spec) list \<Rightarrow>
     (string \<times> component_spec) list \<Rightarrow> (string \<times> 'a py) list \<Rightarrow> 'a io_store \<Rightarrow> 'w run_state \<Rightarrow>
     (error + (string \<times> 'a py) list \<times> status \<times> string option) \<times> 'a io_store \<times> 'w run_state"
  and run_tasks ::
  "('a, 'w) collaborators \<Rightarrow> nat \<Rightarrow> dag_spec \<Rightarrow> (string \<times> executor_spec) list \<Rightarrow>
     (string \<times> component_spec) list \<Rightarrow> string list \<Rightarrow> 'a io_store \<Rightarrow> 'w run_state \<Rightarrow>
     (error + ((string \<times> 'a py) list \<times> status \<times> string option) option) \<times> 'a io_store \<times> 'w run_state"
  and dispatch_task ::
  "('a, 'w) collaborators \<Rightarrow> nat \<Rightarrow> string \<Rightarrow> task_spec \<Rightarrow> (string \<times> executor_spec) list \<Rightarrow>
     (string \<times> component_spec) list \<Rightarrow> 'a io_store \<Rightarrow> 'w run_state \<Rightarrow>
     (error + (string \<times> 'a py) list \<times> status \<times> string option) \<times> 'w run_state"
where
  "run_dag cb 0 dag_component_spec executors components dag_arguments io_store st =
     (Inl RecursionError, io_store, st)"
| "run_dag cb (Suc depth) dag_component_spec executors components dag_arguments io_store st =
     (case bind_defaults_to_dag_arguments dag_arguments dag_component_spec of
        Inl e \<Rightarrow> (Inl e, io_store, st)
      | Inr dag_arguments_with_defaults \<Rightarrow>
          (let io_store1 = fold (\<lambda>(k, v). put_parent_input k v) dag_arguments_with_defaults io_store;
               dag_spec = dag_of dag_component_spec
           in case topological_sort_tasks (tasks dag_spec) of
                Inl e \<Rightarrow> (Inl e, io_store1, st)
              | Inr sorted_tasks \<Rightarrow>
                  (case run_tasks cb depth dag_spec executors components
                          (dispatch_order sorted_tasks) io_store1 st of
                     (Inl e, io_store2, st2) \<Rightarrow> (Inl e, io_store2, st2)
                   | (Inr (Some early), io_store2, st2) \<Rightarrow> (Inr early, io_store2, st2)
                   | (Inr None, io_store2, st2) \<Rightarrow>
                       (case get_dag_outputs dag_spec io_store2 of
                          Inl e \<Rightarrow> (Inl e, io_store2, st2)
                        | Inr dag_outputs \<Rightarrow> (Inr (dag_outputs, SUCCESS, None), io_store2, st2)))))"
| "run_tasks cb depth dag_spec executors components [] io_store st = (Inr None, io_store, st)"
| "run_tasks cb depth dag_spec executors components (task_name # sorted_tasks) io_store st =
     (let task_spec = pb_map_get empty_task_spec (tasks dag_spec) task_name
      in case validate_task_spec_not_loop_or_condition task_spec of
           Inl e \<Rightarrow> (Inl e, io_store, st)
         | Inr u \<Rightarrow>
             (case dispatch_task cb depth task_name task_spec executors components io_store st of
                (Inl e, st1) \<Rightarrow> (Inl e, io_store, st1)
              | (Inr (outputs, task_status, fail_task_name), st1) \<Rightarrow>
                  (if task_status = FAILURE then
                     (Inr (Some ([], FAILURE, fail_task_name)), io_store, st1)
                   else run_tasks cb depth dag_spec executors components sorted_tasks
                          (put_task_outputs task_name outputs io_store) st1)))"
| "dispatch_task cb depth task_name task_spec executors components io_store st =
     (let component_name = component_ref_name task_spec
      in case map_of components component_name of
           None \<Rightarrow> (Inl (KeyError component_name), st)
         | Some component_spec \<Rightarrow>
             (case implementation component_spec of
                Dag dag \<Rightarrow>
                  (case make_task_arguments task_spec io_store of
                     Inl e \<Rightarrow> (Inl e, st)
                   | Inr dag_arguments \<Rightarrow>
                       (case run_dag cb depth component_spec executors components dag_arguments
                               empty_io_store st of
                          (result, sub_dag_io_store, st1) \<Rightarrow> (result, st1)))
              | ExecutorLabel executor_key \<Rightarrow>
                  (case map_of executors executor_key of
                     None \<Rightarrow> (Inl (KeyError executor_key), st)
                   | Some executor_spec \<Rightarrow>
                       (case make_task_arguments task_spec io_store of
                          Inl e \<Rightarrow> (Inl e, st)
                        | Inr task_arguments \<Rightarrow>
                            (case executor_spec of
                               Importer config \<Rightarrow>
                                 call_collaborator (run_importer cb) task_name component_name
                                   component_spec executor_spec task_arguments st
                             | Container config \<Rightarrow>
                                 call_collaborator (run_single_task_implementation cb) task_name
                                   component_name component_spec executor_spec task_arguments st
                             | OtherExecutorSpec \<Rightarrow>
                                 (Inl (ValueError ''Got unknown spec in ExecutorSpec.''), st))))
              | ImplementationNotSet \<Rightarrow>
                  (Inl (ValueError ''Got unknown component implementation''), st)))"
  by pat_completeness auto
termination
  by (relation
       "measures
          [\<lambda>call. case call of
                    Inl (cb, depth, rest) \<Rightarrow> depth
                  | Inr (Inl (cb, depth, rest)) \<Rightarrow> depth
                  | Inr (Inr (cb, depth, rest)) \<Rightarrow> depth,
           \<lambda>call. case call of
                    Inl run_dag_call \<Rightarrow> 0
                  | Inr (Inl (cb, depth, dag_spec, executors, components, sorted_tasks, rest)) \<Rightarrow>
                      Suc (Suc (length sorted_tasks))
                  | Inr (Inr dispatch_task_call) \<Rightarrow> 1]")
     auto

subsection \<open>Traces of a run\<close>

text \<open>The shapes of the part of the trace that one call adds: every task succeeded; or
  every task but the last succeeded and the last one raised; or every task but the last
  succeeded and the last one, the task named, returned \<^verbatim>\<open>FAILURE\<close>.\<close>

definition all_succeeded :: "(string \<times> (error + status)) list \<Rightarrow> bool" where
  "all_succeeded entries = list_all (\<lambda>entry. snd entry = Inr SUCCESS) entries"

definition ended_by_raise :: "(string \<times> (error + status)) list \<Rightarrow> bool" where
  "ended_by_raise entries \<longleftrightarrow>
     all_succeeded entries \<or>
     (\<exists>n e. entries \<noteq> [] \<and> last entries = (n, Inl e) \<and> all_succeeded (butlast entries))"

definition ended_by_failure :: "(string \<times> (error + status)) list \<Rightarrow> string option \<Rightarrow> bool" where
  "ended_by_failure entries fail_task_name \<longleftrightarrow>
     (\<exists>n. fail_task_name = Some n \<and> entries \<noteq> [] \<and> last entries = (n, Inr FAILURE) \<and>
          all_succeeded (butlast entries))"

definition task_trace ::
  "(string \<times> (error + status)) list \<Rightarrow> error + (string \<times> 'a py) list \<times> status \<times> string option \<Rightarrow> bool"
where
  "task_trace entries result =
     (case result of
        Inl e \<Rightarrow> ended_by_raise entries
      | Inr (outputs, SUCCESS, fail_task_name) \<Rightarrow> fail_task_name = None \<and> all_succeeded entries
      | Inr (outputs, FAILURE, fail_task_name) \<Rightarrow> ended_by_failure entries fail_task_name)"

definition dag_trace ::
  "(string \<times> (error + status)) list \<Rightarrow> error + (string \<times> 'a py) list \<times> status \<times> string option \<Rightarrow> bool"
where
  "dag_trace entries result =
     (case result of
        Inl e \<Rightarrow> ended_by_raise entries
      | Inr (outputs, SUCCESS, fail_task_name) \<Rightarrow> fail_task_name = None \<and> all_succeeded entries
      | Inr (outputs, FAILURE, fail_task_name) \<Rightarrow>
          outputs = [] \<and> ended_by_failure entries fail_task_name)"

definition loop_trace ::
  "(string \<times> (error + status)) list \<Rightarrow>
     error + ((string \<times> 'a py) list \<times> status \<times> string option) option \<Rightarrow> bool"
where
  "loop_trace entries result =
     (case result of
        Inl e \<Rightarrow> ended_by_raise entries
      | Inr None \<Rightarrow> all_succeeded entries
      | Inr (Some (outputs, task_status, fail_task_name)) \<Rightarrow>
          outputs = [] \<and> task_status = FAILURE \<and> ended_by_failure entries fail_task_name)"

text \<open>An order of task names in which every task of the map stands after its producers.\<close>

definition producers_first :: "(string \<times> task_spec) list \<Rightarrow> string list \<Rightarrow> bool" where
  "producers_first task_map order \<longleftrightarrow>
     (\<forall>pre n post task. order = pre @ n # post \<and> (n, task) \<in> set task_map \<longrightarrow>
        set (producers task) \<subseteq> set pre)"

subsection \<open>Example inputs\<close>

text \<open>A platform with two output files, where artifacts are kept as they are.\<close>

definition example_platform :: "runtime_artifact platform" where
  "example_platform =
     \<lparr>files = [''/out/msg'' \<mapsto> ''hello'', ''/out/n'' \<mapsto> ''3''],
      json_loads = (\<lambda>s. if s = ''3'' then Inr (PyInt 3) else Inl (ValueError ''Expecting value'')),
      int_of_str = (\<lambda>s. Inl (ValueError ''invalid literal for int()'')),
      create_artifact_instance = (\<lambda>a. a)\<rparr>"

definition example_model :: runtime_artifact where
  "example_model =
     \<lparr>artifact_name = ''model'', artifact_type = [], artifact_uri = ''/out/model'',
      artifact_metadata = []\<rparr>"

definition example_extra_model :: runtime_artifact where
  "example_extra_model =
     \<lparr>artifact_name = ''model-2'', artifact_type = [], artifact_uri = ''/out/model-2'',
      artifact_metadata = []\<rparr>"

definition example_component_spec :: component_spec where
  "example_component_spec =
     \<lparr>input_definitions_parameters = [],
      input_definitions_artifacts = [],
      output_definitions_parameters =
        [(''msg'', STRING), (''n'', NUMBER_INTEGER), (''r'', NUMBER_DOUBLE)],
      output_definitions_artifacts = [(''model'', False)],
      implementation = ExecutorLabel ''exec-train''\<rparr>"

definition example_executor_input :: executor_input where
  "example_executor_input =
     \<lparr>outputs_parameters = [(''msg'', ''/out/msg''), (''n'', ''/out/n''), (''r'', ''/out/r'')],
      outputs_artifacts = [(''model'', [example_model\<lparr>artifact_type := ''system.Model''\<rparr>])],
      outputs_output_file = ''/out/executor_output.json''\<rparr>"

definition example_executor_output :: executor_output where
  "example_executor_output =
     \<lparr>parameter_values = [(''msg'', StringValue ''inline''), (''r'', NumberValue (FloatVal (5 / 2)))],
      artifacts = [(''model'', [example_model])]\<rparr>"

definition example_executor_output_two :: executor_output where
  "example_executor_output_two =
     \<lparr>parameter_values = [(''msg'', StringValue ''inline''), (''r'', NumberValue (FloatVal (5 / 2)))],
      artifacts = [(''model'', [example_model, example_extra_model])]\<rparr>"

definition example_outputs :: "(string \<times> runtime_artifact py) list" where
  "example_outputs =
     [(''msg'', PyStr ''hello''), (''r'', PyFloat (FloatVal (5 / 2))), (''n'', PyInt 3),
      (''model'', PyArtifact (example_model\<lparr>artifact_type := ''system.Model''\<rparr>))]"

text \<open>A component with one integer output, returned inline as the wire number 3.0.\<close>

definition example_count_spec :: component_spec where
  "example_count_spec =
     \<lparr>input_definitions_parameters = [],
      input_definitions_artifacts = [],
      output_definitions_parameters = [(''count'', NUMBER_INTEGER)],
      output_definitions_artifacts = [],
      implementation = ExecutorLabel ''exec-count''\<rparr>"

definition example_count_input :: executor_input where
  "example_count_input =
     \<lparr>outputs_parameters = [(''count'', ''/out/count'')],
      outputs_artifacts = [],
      outputs_output_file = ''/out/executor_output.json''\<rparr>"

definition example_count_output :: executor_output where
  "example_count_output =
     \<lparr>parameter_values = [(''count'', NumberValue (FloatVal 3))], artifacts = []\<rparr>"

text \<open>A pipeline with a nested graph. \<open>prepare\<close> feeds the graph task \<open>train\<close>, which feeds
  \<open>report\<close>; inside the graph, \<open>fit\<close> reads the graph's input and feeds \<open>evaluate\<close>. The
  tasks are declared against the direction of the data.\<close>

definition leaf_component :: "parameter_type_enum \<Rightarrow> string \<Rightarrow> component_spec" where
  "leaf_component declared_type executor_label =
     \<lparr>input_definitions_parameters =
        [(''x'', \<lparr>parameter_type = declared_type, default_value = KindNotSet\<rparr>)],
      input_definitions_artifacts = [],
      output_definitions_parameters = [(''out'', declared_type)],
      output_definitions_artifacts = [],
      implementation = ExecutorLabel executor_label\<rparr>"

definition plain_task :: "string \<Rightarrow> input_parameter_kind \<Rightarrow> task_spec" where
  "plain_task component_name x =
     \<lparr>component_ref_name = component_name, inputs_parameters = [(''x'', x)],
      inputs_artifacts = [], trigger_policy_condition = [], iterator = None\<rparr>"

definition example_train_graph :: component_spec where
  "example_train_graph =
     \<lparr>input_definitions_parameters =
        [(''data'', \<lparr>parameter_type = NUMBER_DOUBLE, default_value = KindNotSet\<rparr>)],
      input_definitions_artifacts = [],
      output_definitions_parameters = [(''score'', NUMBER_DOUBLE)],
      output_definitions_artifacts = [],
      implementation = Dag
        \<lparr>tasks =
           [(''evaluate'', plain_task ''comp-evaluate'' (TaskOutputParameter ''fit'' ''out'')),
            (''fit'', plain_task ''comp-fit'' (ComponentInputParameter ''data''))],
         dag_outputs_parameters = [(''score'', ValueFromParameter ''evaluate'' ''out'')],
         dag_outputs_artifacts = []\<rparr>\<rparr>"

definition example_tasks :: "(string \<times> task_spec) list" where
  "example_tasks =
     [(''report'', plain_task ''comp-report'' (TaskOutputParameter ''train'' ''score'')),
      (''train'',
         \<lparr>component_ref_name = ''comp-train-graph'',
          inputs_parameters = [(''data'', TaskOutputParameter ''prepare'' ''out'')],
          inputs_artifacts = [], trigger_policy_condition = [], iterator = None\<rparr>),
      (''prepare'', plain_task ''comp-prepare'' (RuntimeValueConstant (NumberValue (FloatVal 3))))]"

definition example_pipeline :: component_spec where
  "example_pipeline =
     \<lparr>input_definitions_parameters = [],
      input_definitions_artifacts = [],
      output_definitions_parameters = [(''result'', NUMBER_DOUBLE)],
      output_definitions_artifacts = [],
      implementation = Dag
        \<lparr>tasks = example_tasks,
         dag_outputs_parameters = [(''result'', ValueFromParameter ''report'' ''out'')],
         dag_outputs_artifacts = []\<rparr>\<rparr>"

definition example_components :: "(string \<times> component_spec) list" where
  "example_components =
     [(''comp-prepare'', leaf_component NUMBER_DOUBLE ''exec-prepare''),
      (''comp-fit'', leaf_component NUMBER_DOUBLE ''exec-fit''),
      (''comp-evaluate'', leaf_component NUMBER_DOUBLE ''exec-evaluate''),
      (''comp-report'', leaf_component NUMBER_DOUBLE ''exec-report''),
      (''comp-count'', leaf_component NUMBER_INTEGER ''exec-report''),
      (''comp-train-graph'', example_train_graph)]"

definition example_executors :: "(string \<times> executor_spec) list" where
  "example_executors =
     [(''exec-prepare'', Container ''python:3.9''),
      (''exec-fit'', Container ''python:3.9''),
      (''exec-evaluate'', Container ''python:3.9''),
      (''exec-report'', Container ''python:3.9'')]"

text \<open>Collaborators that count the steps they run. A container step returns its argument
  \<open>x\<close> as its output \<open>out\<close>; the step of the component named by the first argument
  fails.\<close>

definition echo_step :: "string \<Rightarrow> (runtime_artifact, nat) collaborator" where
  "echo_step failing w component_name component_spec executor_spec arguments =
     (Suc w,
      Inr ([(''out'', case map_of arguments ''x'' of None \<Rightarrow> PyNone | Some v \<Rightarrow> v)],
           if component_name = failing then FAILURE else SUCCESS))"

definition example_collaborators :: "string \<Rightarrow> (runtime_artifact, nat) collaborators" where
  "example_collaborators failing =
     \<lparr>run_importer = (\<lambda>w component_name component_spec executor_spec arguments.
        (Suc w, Inr ([(''artifact'', PyArtifact example_model)], SUCCESS))),
      run_single_task_implementation = echo_step failing\<rparr>"

definition initial_state :: "nat run_state" where
  "initial_state = \<lparr>world = 0, dispatched = []\<rparr>"

text \<open>A graph whose second task carries a condition.\<close>

definition example_conditional_pipeline :: component_spec where
  "example_conditional_pipeline =
     \<lparr>input_definitions_parameters = [],
      input_definitions_artifacts = [],
      output_definitions_parameters = [],
      output_definitions_artifacts = [],
      implementation = Dag
        \<lparr>tasks =
           [(''prepare'', plain_task ''comp-prepare'' (RuntimeValueConstant (NumberValue (FloatVal 3)))),
            (''maybe-report'',
               (plain_task ''comp-report'' (TaskOutputParameter ''prepare'' ''out''))
                 \<lparr>trigger_policy_condition := ''inputs.parameter_values[x] == 3''\<rparr>)],
         dag_outputs_parameters = [],
         dag_outputs_artifacts = []\<rparr>\<rparr>"

text \<open>A graph with one integer parameter input and one artifact input, each passed on to
  a task.\<close>

definition example_inputs_pipeline :: component_spec where
  "example_inputs_pipeline =
     \<lparr>input_definitions_parameters =
        [(''n'', \<lparr>parameter_type = NUMBER_INTEGER, default_value = NumberValue (FloatVal 3)\<rparr>)],
      input_definitions_artifacts = [(''dataset'', False)],
      output_definitions_parameters = [(''result'', NUMBER_INTEGER)],
      output_definitions_artifacts = [],
      implementation = Dag
        \<lparr>tasks = [(''echo'', plain_task ''comp-count'' (ComponentInputParameter ''n''))],
         dag_outputs_parameters = [(''result'', ValueFromParameter ''echo'' ''out'')],
         dag_outputs_artifacts = []\<rparr>\<rparr>"

definition example_artifact_task :: task_spec where
  "example_artifact_task =
     \<lparr>component_ref_name = ''comp-report'', inputs_parameters = [],
      inputs_artifacts = [(''data'', ComponentInputArtifact ''dataset'')],
      trigger_policy_condition = [], iterator = None\<rparr>"

section \<open>Properties\<close>

text \<open>The equations that evaluate the examples.\<close>

lemmas example_defs =
  example_platform_def example_model_def example_extra_model_def example_component_spec_def
  example_executor_input_def example_executor_output_def example_executor_output_two_def
  example_outputs_def

lemmas normalizer_defs =
  get_outputs_from_executor_output_def add_type_to_executor_output_def
  merge_dsl_output_file_parameters_to_executor_output_def dict_merge_def
  special_dsl_outputpath_read_def artifact_list_to_dsl_artifact_def pb_map_get_def

subsection \<open>The codec\<close>

lemma encode_then_decode:
  "float_numbered (x :: 'a py) \<Longrightarrow>
     \<exists>v. to_protobuf_value x = Inr v \<and> (pb2_value_to_python v :: error + 'a py) = Inr x"
  "float_numbered_items (d :: (string \<times> 'a py) list) \<Longrightarrow>
     \<exists>fs. to_protobuf_struct d = Inr fs \<and>
          (pb2_struct_to_python fs :: error + (string \<times> 'a py) list) = Inr d"
  "float_numbered_list (xs :: 'a py list) \<Longrightarrow>
     \<exists>vs. to_protobuf_list xs = Inr vs \<and> (pb2_list_to_python vs :: error + 'a py list) = Inr xs"
  by (induction x and d and xs rule: float_numbered_float_numbered_items_float_numbered_list.induct)
     (auto split: sum.splits)

lemma decode_then_encode:
  "tagged v \<Longrightarrow>
     \<exists>x. (pb2_value_to_python v :: error + 'a py) = Inr x \<and> to_protobuf_value x = Inr v"
  "tagged_fields fs \<Longrightarrow>
     \<exists>d. (pb2_struct_to_python fs :: error + (string \<times> 'a py) list) = Inr d \<and>
         to_protobuf_struct d = Inr fs"
  "tagged_list vs \<Longrightarrow>
     \<exists>xs. (pb2_list_to_python vs :: error + 'a py list) = Inr xs \<and> to_protobuf_list xs = Inr vs"
  by (induction v and fs and vs rule: tagged_tagged_fields_tagged_list.induct)
     (auto split: sum.splits)

text \<open>
  Claim C8, as the codec has it. Encoding a float-numbered native value and decoding the
  result gives the value back, and decoding a tagged wire value and encoding the result
  gives the wire value back; neither stage raises. A native integer is encoded under
  the numeric tag and decoded as the float of the same value, not as the integer.
\<close>

theorem codec_round_trip:
  "(float_numbered (x :: 'a py) \<longrightarrow>
      (\<exists>v. to_protobuf_value x = Inr v \<and> (pb2_value_to_python v :: error + 'a py) = Inr x)) \<and>
   (tagged w \<longrightarrow>
      (\<exists>y. (pb2_value_to_python w :: error + 'a py) = Inr y \<and> to_protobuf_value y = Inr w)) \<and>
   to_protobuf_value (PyInt i :: 'a py) = Inr (NumberValue (FloatVal (of_int i))) \<and>
   (pb2_value_to_python (NumberValue (FloatVal (of_int i))) :: error + 'a py) =
     Inr (PyFloat (FloatVal (of_int i)))"
  using encode_then_decode(1)[of x] decode_then_encode(1)[where 'a = 'a, of w] by simp

theorem codec_round_trip_witness:
  "to_protobuf_value
     (PyDict [(''xs'', PyList [PyFloat (FloatVal 3), PyStr ''a'', PyNone]), (''ok'', PyBool True)]
        :: runtime_artifact py) =
     Inr (StructValue [(''xs'', ListValue [NumberValue (FloatVal 3), StringValue ''a'', NullValue]),
                       (''ok'', BoolValue True)]) \<and>
   (pb2_value_to_python
      (StructValue [(''xs'', ListValue [NumberValue (FloatVal 3), StringValue ''a'', NullValue]),
                    (''ok'', BoolValue True)]) :: error + runtime_artifact py) =
     Inr (PyDict [(''xs'', PyList [PyFloat (FloatVal 3), PyStr ''a'', PyNone]), (''ok'', PyBool True)])"
proof -
  let ?x = "PyDict [(''xs'', PyList [PyFloat (FloatVal 3), PyStr ''a'', PyNone]), (''ok'', PyBool True)]
              :: runtime_artifact py"
  let ?w = "StructValue [(''xs'', ListValue [NumberValue (FloatVal 3), StringValue ''a'', NullValue]),
                         (''ok'', BoolValue True)]"
  have x: "float_numbered ?x" and w: "tagged ?w" by simp_all
  have enc: "to_protobuf_value ?x = Inr ?w" by simp
  from codec_round_trip[where x = ?x and w = ?w and i = 0] x w enc
  show ?thesis by simp
qed

text \<open>
  Claim C8 as stated fails on a native integer, which is a number the encoder receives:
  the integer 3 is encoded as the wire number 3 and decoded as the float 3.0.
\<close>

theorem native_integer_decoded_as_float:
  "to_protobuf_value (PyInt 3 :: runtime_artifact py) = Inr (NumberValue (FloatVal 3)) \<and>
   (pb2_value_to_python (NumberValue (FloatVal 3)) :: error + runtime_artifact py) =
     Inr (PyFloat (FloatVal 3)) \<and>
   (PyFloat (FloatVal 3) :: runtime_artifact py) \<noteq> PyInt 3"
  by simp

subsection \<open>The integer cast\<close>





subsection \<open>Output files\<close>

lemma merge_loop:
  "merge_output_file_parameters pf cs ps vals = Inr vals' \<Longrightarrow> distinct (map fst ps) \<Longrightarrow>
   (\<forall>k. (\<forall>f. (k, f) \<in> set ps \<longrightarrow> files pf f = None) \<longrightarrow> map_of vals' k = map_of vals k) \<and>
   (\<forall>k f text. (k, f) \<in> set ps \<and> files pf f = Some text \<longrightarrow>
      (\<exists>x v. special_dsl_outputpath_read pf f
                (pb_map_get PARAMETER_TYPE_ENUM_UNSPECIFIED (output_definitions_parameters cs) k = STRING) = Inr x \<and>
             to_protobuf_value x = Inr v \<and> map_of vals' k = Some v))"
proof (induction ps arbitrary: vals)
  case Nil
  then show ?case by simp
next
  case (Cons p ps)
  obtain k0 f0 where p: "p = (k0, f0)" by (cases p)
  from Cons.prems(2) p have dist: "distinct (map fst ps)" and fresh: "\<forall>f. (k0, f) \<notin> set ps"
    by (auto simp: image_iff)
  show ?case
  proof (cases "files pf f0")
    case None
    with Cons.prems(1) p have rest: "merge_output_file_parameters pf cs ps vals = Inr vals'" by simp
    from Cons.IH[OF rest dist] None p show ?thesis by auto
  next
    case (Some text0)
    with Cons.prems(1) p obtain x v where
      x: "special_dsl_outputpath_read pf f0
            (pb_map_get PARAMETER_TYPE_ENUM_UNSPECIFIED (output_definitions_parameters cs) k0 = STRING) = Inr x"
      and v: "to_protobuf_value x = Inr v"
      and rest: "merge_output_file_parameters pf cs ps (AList.update k0 v vals) = Inr vals'"
      by (auto simp: Let_def split: sum.splits)
    note IH = Cons.IH[OF rest dist]
    from fresh IH have k0: "map_of vals' k0 = Some v" by (simp add: update_conv')
    have a: "\<forall>k. (\<forall>f. (k, f) \<in> set (p # ps) \<longrightarrow> files pf f = None) \<longrightarrow> map_of vals' k = map_of vals k"
    proof (intro allI impI)
      fix k assume h: "\<forall>f. (k, f) \<in> set (p # ps) \<longrightarrow> files pf f = None"
      with Some p have "k \<noteq> k0" by auto
      moreover from h have "\<forall>f. (k, f) \<in> set ps \<longrightarrow> files pf f = None" by auto
      ultimately show "map_of vals' k = map_of vals k" using IH by (simp add: update_conv')
    qed
    have b: "\<forall>k f text. (k, f) \<in> set (p # ps) \<and> files pf f = Some text \<longrightarrow>
      (\<exists>x v. special_dsl_outputpath_read pf f
                (pb_map_get PARAMETER_TYPE_ENUM_UNSPECIFIED (output_definitions_parameters cs) k = STRING) = Inr x \<and>
             to_protobuf_value x = Inr v \<and> map_of vals' k = Some v)"
      using IH p x v k0 by auto
    from a b show ?thesis by blast
  qed
qed

lemma merge_loop_total:
  "(\<forall>k f text. (k, f) \<in> set ps \<and> files pf f = Some text \<longrightarrow>
      pb_map_get PARAMETER_TYPE_ENUM_UNSPECIFIED (output_definitions_parameters cs) k = STRING \<or>
      (\<exists>x v. json_loads pf text = Inr x \<and> to_protobuf_value x = Inr v)) \<Longrightarrow>
   \<exists>vals'. merge_output_file_parameters pf cs ps vals = Inr vals'"
proof (induction ps arbitrary: vals)
  case Nil
  then show ?case by simp
next
  case (Cons p ps)
  obtain k f where p: "p = (k, f)" by (cases p)
  from Cons.prems have rest: "\<forall>k f text. (k, f) \<in> set ps \<and> files pf f = Some text \<longrightarrow>
      pb_map_get PARAMETER_TYPE_ENUM_UNSPECIFIED (output_definitions_parameters cs) k = STRING \<or>
      (\<exists>x v. json_loads pf text = Inr x \<and> to_protobuf_value x = Inr v)" by auto
  show ?case
  proof (cases "files pf f")
    case None
    with Cons.IH[OF rest] p show ?thesis by simp
  next
    case (Some raw)
    with Cons.prems p have
      "pb_map_get PARAMETER_TYPE_ENUM_UNSPECIFIED (output_definitions_parameters cs) k = STRING \<or>
       (\<exists>x v. json_loads pf raw = Inr x \<and> to_protobuf_value x = Inr v)" by auto
    then obtain x v where
      "special_dsl_outputpath_read pf f
         (pb_map_get PARAMETER_TYPE_ENUM_UNSPECIFIED (output_definitions_parameters cs) k = STRING) = Inr x"
      "to_protobuf_value x = Inr v"
      using Some by (cases "pb_map_get PARAMETER_TYPE_ENUM_UNSPECIFIED (output_definitions_parameters cs) k = STRING")
        (auto simp: special_dsl_outputpath_read_def)
    with Cons.IH[OF rest, of "AList.update k v vals"] Some p show ?thesis
      by (auto simp: Let_def)
  qed
qed

lemma merge_loop_text:
  assumes "merge_output_file_parameters pf cs ps vals = Inr vals'" and "distinct (map fst ps)"
    and "(k, f) \<in> set ps" and "files pf f = Some text"
  shows "if pb_map_get PARAMETER_TYPE_ENUM_UNSPECIFIED (output_definitions_parameters cs) k = STRING
         then map_of vals' k = Some (StringValue text)
         else (\<exists>x v. json_loads pf text = Inr x \<and> to_protobuf_value x = Inr v \<and>
                 map_of vals' k = Some v)"
proof -
  from merge_loop[OF assms(1,2)] assms(3,4) obtain x v where
    "special_dsl_outputpath_read pf f
       (pb_map_get PARAMETER_TYPE_ENUM_UNSPECIFIED (output_definitions_parameters cs) k = STRING) = Inr x"
    "to_protobuf_value x = Inr v" "map_of vals' k = Some v"
    by blast
  with assms(4) show ?thesis
    by (auto simp: special_dsl_outputpath_read_def split: if_splits)
qed

text \<open>
  Claim C7. Let the keys of the output parameters be distinct. The merge returns whenever
  the text of every existing output file of a parameter not declared \<^verbatim>\<open>STRING\<close> is
  decoded by \<^verbatim>\<open>json.loads\<close> to a value that has a wire form. When the merge returns, an
  output parameter whose designated output file exists is bound in the parameter map to
  the wire form of the file's content: of the raw text itself when the parameter is
  declared \<^verbatim>\<open>STRING\<close>, and otherwise of the value that \<^verbatim>\<open>json.loads\<close> decodes from the
  text.
\<close>

theorem output_file_parameter_merged:
  assumes "distinct (map fst (outputs_parameters executor_input))"
  shows
   "((\<forall>parameter_key output_file text.
        (parameter_key, output_file) \<in> set (outputs_parameters executor_input) \<and>
        files pf output_file = Some text \<longrightarrow>
        pb_map_get PARAMETER_TYPE_ENUM_UNSPECIFIED
          (output_definitions_parameters component_spec) parameter_key = STRING \<or>
        (\<exists>x v. json_loads pf text = Inr x \<and> to_protobuf_value x = Inr v)) \<longrightarrow>
     (\<exists>merged. merge_dsl_output_file_parameters_to_executor_output pf executor_input
                 executor_output component_spec = Inr merged)) \<and>
    (\<forall>merged parameter_key output_file text.
       merge_dsl_output_file_parameters_to_executor_output pf executor_input executor_output
         component_spec = Inr merged \<and>
       (parameter_key, output_file) \<in> set (outputs_parameters executor_input) \<and>
       files pf output_file = Some text \<longrightarrow>
       (if pb_map_get PARAMETER_TYPE_ENUM_UNSPECIFIED
             (output_definitions_parameters component_spec) parameter_key = STRING
        then map_of (parameter_values merged) parameter_key = Some (StringValue text)
        else (\<exists>x v. json_loads pf text = Inr x \<and> to_protobuf_value x = Inr v \<and>
                map_of (parameter_values merged) parameter_key = Some v)))"
proof (intro conjI impI allI)
  assume "\<forall>parameter_key output_file text.
        (parameter_key, output_file) \<in> set (outputs_parameters executor_input) \<and>
        files pf output_file = Some text \<longrightarrow>
        pb_map_get PARAMETER_TYPE_ENUM_UNSPECIFIED
          (output_definitions_parameters component_spec) parameter_key = STRING \<or>
        (\<exists>x v. json_loads pf text = Inr x \<and> to_protobuf_value x = Inr v)"
  from merge_loop_total[OF this, of "parameter_values executor_output"]
  show "\<exists>merged. merge_dsl_output_file_parameters_to_executor_output pf executor_input
                 executor_output component_spec = Inr merged"
    by (auto simp: merge_dsl_output_file_parameters_to_executor_output_def)
next
  fix merged parameter_key output_file raw
  assume h: "merge_dsl_output_file_parameters_to_executor_output pf executor_input executor_output
         component_spec = Inr merged \<and>
       (parameter_key, output_file) \<in> set (outputs_parameters executor_input) \<and>
       files pf output_file = Some raw"
  then obtain vals where
    loop: "merge_output_file_parameters pf component_spec (outputs_parameters executor_input)
             (parameter_values executor_output) = Inr vals"
    and merged: "parameter_values merged = vals"
    by (auto simp: merge_dsl_output_file_parameters_to_executor_output_def split: sum.splits)
  from h have mem: "(parameter_key, output_file) \<in> set (outputs_parameters executor_input)"
    and exists: "files pf output_file = Some raw" by simp_all
  from merge_loop_text[OF loop assms mem exists] merged
  show "if pb_map_get PARAMETER_TYPE_ENUM_UNSPECIFIED
             (output_definitions_parameters component_spec) parameter_key = STRING
        then map_of (parameter_values merged) parameter_key = Some (StringValue raw)
        else (\<exists>x v. json_loads pf raw = Inr x \<and> to_protobuf_value x = Inr v \<and>
                map_of (parameter_values merged) parameter_key = Some v)"
    by (auto split: if_splits)
qed

text \<open>In the example the file of \<open>msg\<close> holds \<open>hello\<close> and the file of \<open>n\<close> holds \<open>3\<close>; the
  file of \<open>r\<close> does not exist.\<close>

theorem output_file_parameter_merged_witness:
  "merge_dsl_output_file_parameters_to_executor_output example_platform example_executor_input
     example_executor_output example_component_spec =
     Inr (example_executor_output\<lparr>parameter_values :=
            [(''msg'', StringValue ''hello''), (''r'', NumberValue (FloatVal (5 / 2))),
             (''n'', NumberValue (FloatVal 3))]\<rparr>) \<and>
   files example_platform ''/out/msg'' = Some ''hello'' \<and>
   files example_platform ''/out/n'' = Some ''3'' \<and>
   json_loads example_platform ''3'' = Inr (PyInt 3)"
proof -
  let ?vals = "[(''msg'', StringValue ''hello''), (''r'', NumberValue (FloatVal (5 / 2))),
         (''n'', NumberValue (FloatVal 3))]"
  let ?merged = "example_executor_output\<lparr>parameter_values := ?vals\<rparr>"
  have dist: "distinct (map fst (outputs_parameters example_executor_input))"
    by (simp add: example_defs)
  note th = output_file_parameter_merged[OF dist, of example_platform example_component_spec
      example_executor_output]
  have decodable: "\<forall>parameter_key output_file text.
        (parameter_key, output_file) \<in> set (outputs_parameters example_executor_input) \<and>
        files example_platform output_file = Some text \<longrightarrow>
        pb_map_get PARAMETER_TYPE_ENUM_UNSPECIFIED
          (output_definitions_parameters example_component_spec) parameter_key = STRING \<or>
        (\<exists>x v. json_loads example_platform text = Inr x \<and> to_protobuf_value x = Inr v)"
    by (auto simp: example_defs pb_map_get_def)
  from th[THEN conjunct1, THEN mp, OF decodable] obtain merged where
    run: "merge_dsl_output_file_parameters_to_executor_output example_platform
            example_executor_input example_executor_output example_component_spec = Inr merged"
    by blast
  have msg: "(''msg'', ''/out/msg'') \<in> set (outputs_parameters example_executor_input)"
    and n: "(''n'', ''/out/n'') \<in> set (outputs_parameters example_executor_input)"
    and fmsg: "files example_platform ''/out/msg'' = Some ''hello''"
    and fn: "files example_platform ''/out/n'' = Some ''3''"
    by (simp_all add: example_defs)
  from th[THEN conjunct2, rule_format, OF conjI[OF run conjI[OF msg fmsg]]]
  have "map_of (parameter_values merged) ''msg'' = Some (StringValue ''hello'')"
    by (simp add: example_defs pb_map_get_def)
  have eval: "merge_dsl_output_file_parameters_to_executor_output example_platform
               example_executor_input example_executor_output example_component_spec = Inr ?merged"
    by (simp add: example_defs normalizer_defs)
  with run fmsg fn show ?thesis by (simp add: example_defs)
qed

text \<open>
  Claim C9. Let the keys of the output parameters be distinct. The merge returns whenever
  the text of every existing output file of a parameter not declared \<^verbatim>\<open>STRING\<close> is
  decoded by \<^verbatim>\<open>json.loads\<close> to a value that has a wire form. When the merge returns, a
  parameter that has an inline value in the raw message and an existing designated
  output file is bound to the wire form of the file's text, which replaces the inline
  value; a parameter with no existing designated file keeps the binding of the raw
  message, and the artifacts of the message are as they were.
\<close>

theorem output_file_replaces_inline_value:
  assumes "distinct (map fst (outputs_parameters executor_input))"
  shows
   "((\<forall>parameter_key output_file text.
        (parameter_key, output_file) \<in> set (outputs_parameters executor_input) \<and>
        files pf output_file = Some text \<longrightarrow>
        pb_map_get PARAMETER_TYPE_ENUM_UNSPECIFIED
          (output_definitions_parameters component_spec) parameter_key = STRING \<or>
        (\<exists>x v. json_loads pf text = Inr x \<and> to_protobuf_value x = Inr v)) \<longrightarrow>
     (\<exists>merged. merge_dsl_output_file_parameters_to_executor_output pf executor_input
                 executor_output component_spec = Inr merged)) \<and>
    (\<forall>merged.
       merge_dsl_output_file_parameters_to_executor_output pf executor_input executor_output
         component_spec = Inr merged \<longrightarrow>
       (\<forall>parameter_key output_file text inline.
          (parameter_key, output_file) \<in> set (outputs_parameters executor_input) \<and>
          files pf output_file = Some text \<and>
          map_of (parameter_values executor_output) parameter_key = Some inline \<longrightarrow>
          (if pb_map_get PARAMETER_TYPE_ENUM_UNSPECIFIED
                (output_definitions_parameters component_spec) parameter_key = STRING
           then map_of (parameter_values merged) parameter_key = Some (StringValue text)
           else (\<exists>x v. json_loads pf text = Inr x \<and> to_protobuf_value x = Inr v \<and>
                   map_of (parameter_values merged) parameter_key = Some v))) \<and>
       (\<forall>parameter_key.
          (\<forall>output_file. (parameter_key, output_file) \<in> set (outputs_parameters executor_input) \<longrightarrow>
             files pf output_file = None) \<longrightarrow>
          map_of (parameter_values merged) parameter_key =
            map_of (parameter_values executor_output) parameter_key) \<and>
       artifacts merged = artifacts executor_output)"
proof (intro conjI impI allI)
  assume "\<forall>parameter_key output_file text.
        (parameter_key, output_file) \<in> set (outputs_parameters executor_input) \<and>
        files pf output_file = Some text \<longrightarrow>
        pb_map_get PARAMETER_TYPE_ENUM_UNSPECIFIED
          (output_definitions_parameters component_spec) parameter_key = STRING \<or>
        (\<exists>x v. json_loads pf text = Inr x \<and> to_protobuf_value x = Inr v)"
  from merge_loop_total[OF this, of "parameter_values executor_output"]
  show "\<exists>merged. merge_dsl_output_file_parameters_to_executor_output pf executor_input
                 executor_output component_spec = Inr merged"
    by (auto simp: merge_dsl_output_file_parameters_to_executor_output_def)
next
  fix merged parameter_key output_file raw inline
  assume run: "merge_dsl_output_file_parameters_to_executor_output pf executor_input
                 executor_output component_spec = Inr merged"
    and h: "(parameter_key, output_file) \<in> set (outputs_parameters executor_input) \<and>
          files pf output_file = Some raw \<and>
          map_of (parameter_values executor_output) parameter_key = Some inline"
  from run obtain vals where
    loop: "merge_output_file_parameters pf component_spec (outputs_parameters executor_input)
             (parameter_values executor_output) = Inr vals"
    and merged: "parameter_values merged = vals"
    by (auto simp: merge_dsl_output_file_parameters_to_executor_output_def split: sum.splits)
  from h have mem: "(parameter_key, output_file) \<in> set (outputs_parameters executor_input)"
    and exists: "files pf output_file = Some raw" by simp_all
  from merge_loop_text[OF loop assms mem exists] merged
  show "if pb_map_get PARAMETER_TYPE_ENUM_UNSPECIFIED
                (output_definitions_parameters component_spec) parameter_key = STRING
           then map_of (parameter_values merged) parameter_key = Some (StringValue raw)
           else (\<exists>x v. json_loads pf raw = Inr x \<and> to_protobuf_value x = Inr v \<and>
                   map_of (parameter_values merged) parameter_key = Some v)"
    by (auto split: if_splits)
next
  fix merged parameter_key
  assume run: "merge_dsl_output_file_parameters_to_executor_output pf executor_input
                 executor_output component_spec = Inr merged"
    and none: "\<forall>output_file. (parameter_key, output_file) \<in> set (outputs_parameters executor_input) \<longrightarrow>
             files pf output_file = None"
  from run obtain vals where
    loop: "merge_output_file_parameters pf component_spec (outputs_parameters executor_input)
             (parameter_values executor_output) = Inr vals"
    and merged: "parameter_values merged = vals"
    by (auto simp: merge_dsl_output_file_parameters_to_executor_output_def split: sum.splits)
  from merge_loop[OF loop assms] none merged
  show "map_of (parameter_values merged) parameter_key =
            map_of (parameter_values executor_output) parameter_key" by blast
next
  fix merged
  assume "merge_dsl_output_file_parameters_to_executor_output pf executor_input
                 executor_output component_spec = Inr merged"
  then show "artifacts merged = artifacts executor_output"
    by (auto simp: merge_dsl_output_file_parameters_to_executor_output_def split: sum.splits)
qed

text \<open>In the example the inline value of \<open>msg\<close> is replaced by the text of its file, and
  \<open>r\<close>, whose file does not exist, keeps its inline value.\<close>

theorem output_file_replaces_inline_value_witness:
  "map_of (parameter_values example_executor_output) ''msg'' = Some (StringValue ''inline'') \<and>
   files example_platform ''/out/msg'' = Some ''hello'' \<and>
   files example_platform ''/out/r'' = None \<and>
   (\<exists>merged.
      merge_dsl_output_file_parameters_to_executor_output example_platform example_executor_input
        example_executor_output example_component_spec = Inr merged \<and>
      map_of (parameter_values merged) ''msg'' = Some (StringValue ''hello'') \<and>
      map_of (parameter_values merged) ''r'' = Some (NumberValue (FloatVal (5 / 2))) \<and>
      artifacts merged = artifacts example_executor_output)"
proof -
  have dist: "distinct (map fst (outputs_parameters example_executor_input))"
    by (simp add: example_defs)
  note th = output_file_replaces_inline_value[OF dist, of example_platform example_component_spec
      example_executor_output]
  have decodable: "\<forall>parameter_key output_file text.
        (parameter_key, output_file) \<in> set (outputs_parameters example_executor_input) \<and>
        files example_platform output_file = Some text \<longrightarrow>
        pb_map_get PARAMETER_TYPE_ENUM_UNSPECIFIED
          (output_definitions_parameters example_component_spec) parameter_key = STRING \<or>
        (\<exists>x v. json_loads example_platform text = Inr x \<and> to_protobuf_value x = Inr v)"
    by (auto simp: example_defs pb_map_get_def)
  from th[THEN conjunct1, THEN mp, OF decodable] obtain merged where
    run: "merge_dsl_output_file_parameters_to_executor_output example_platform
            example_executor_input example_executor_output example_component_spec = Inr merged"
    by blast
  note after = th[THEN conjunct2, THEN spec, THEN mp, OF run]
  have inline: "map_of (parameter_values example_executor_output) ''msg'' = Some (StringValue ''inline'')"
    and msg: "(''msg'', ''/out/msg'') \<in> set (outputs_parameters example_executor_input)"
    and fmsg: "files example_platform ''/out/msg'' = Some ''hello''"
    and fr: "files example_platform ''/out/r'' = None"
    by (simp_all add: example_defs)
  from after[THEN conjunct1, rule_format, OF conjI[OF msg conjI[OF fmsg inline]]]
  have a: "map_of (parameter_values merged) ''msg'' = Some (StringValue ''hello'')"
    by (simp add: example_defs pb_map_get_def)
  have r: "\<forall>output_file. (''r'', output_file) \<in> set (outputs_parameters example_executor_input) \<longrightarrow>
             files example_platform output_file = None"
    by (simp add: example_defs)
  from after[THEN conjunct2, THEN conjunct1, THEN spec, THEN mp, OF r]
  have b: "map_of (parameter_values merged) ''r'' = Some (NumberValue (FloatVal (5 / 2)))"
    by (simp add: example_defs)
  from after[THEN conjunct2, THEN conjunct2]
  have c: "artifacts merged = artifacts example_executor_output" .
  from run a b c inline fmsg fr show ?thesis by blast
qed

subsection \<open>Artifacts\<close>

lemma add_type_to_artifacts_result:
  "add_type_to_artifacts declared al = Inr al' \<Longrightarrow>
   (al = [] \<and> al' = []) \<or>
   (\<exists>a rest d drest rest'. al = a # rest \<and> declared = d # drest \<and>
      al' = a\<lparr>artifact_type := artifact_type d\<rparr> # rest')"
  by (cases al; cases declared) (auto split: sum.splits)

lemma add_type_to_artifact_lists_lookup:
  "add_type_to_artifact_lists ei arts = Inr arts' \<Longrightarrow> map_of arts k = Some al \<Longrightarrow>
   \<exists>al'. add_type_to_artifacts (pb_map_get [] (outputs_artifacts ei) k) al = Inr al' \<and>
         map_of arts' k = Some al'"
  by (induction arts arbitrary: arts') (auto split: sum.splits if_splits)

lemma add_type_to_artifact_lists_keys:
  "add_type_to_artifact_lists ei arts = Inr arts' \<Longrightarrow> map fst arts' = map fst arts"
  by (induction arts arbitrary: arts') (auto split: sum.splits)

lemma dict_comprehension_lookup:
  "dict_comprehension f items = Inr d \<Longrightarrow> map_of items k = Some v \<Longrightarrow>
   \<exists>y. f k v = Inr y \<and> map_of d k = Some y"
  by (induction items arbitrary: d) (auto split: sum.splits if_splits)

lemma dict_comprehension_keys:
  "dict_comprehension f items = Inr d \<Longrightarrow> map fst d = map fst items"
  by (induction items arbitrary: d) (auto split: sum.splits)

lemma dict_merge_lookup:
  "distinct (map fst b) \<Longrightarrow> map_of (dict_merge a b) = map_of a ++ map_of b"
proof (induction b arbitrary: a)
  case Nil
  then show ?case by (simp add: dict_merge_def)
next
  case (Cons p b)
  obtain k v where p: "p = (k, v)" by (cases p)
  from Cons.prems p have d: "distinct (map fst b)" and k: "map_of b k = None"
    by (auto simp: map_of_eq_None_iff)
  have "dict_merge a (p # b) = dict_merge (AList.update k v a) b"
    by (simp add: dict_merge_def p)
  then have "map_of (dict_merge a (p # b)) = map_of (AList.update k v a) ++ map_of b"
    using Cons.IH[OF d] by simp
  also have "\<dots> = (map_of a)(k \<mapsto> v) ++ map_of b"
    by (simp only: update_conv')
  also have "\<dots> = map_of a ++ map_of (p # b)"
    using k by (auto simp: p map_add_def fun_eq_iff split: option.splits)
  finally show ?case .
qed

lemma cast_keeps_artifact:
  "cast_floats_as_ints_to_floats pf d ks = Inr d' \<Longrightarrow> map_of d k = Some (PyArtifact a) \<Longrightarrow>
   map_of d' k = Some (PyArtifact a)"
proof (induction ks arbitrary: d)
  case Nil
  then show ?case by simp
next
  case (Cons k' ks)
  from Cons.prems(1) obtain v j where v: "map_of d k' = Some v" and j: "py_int pf v = Inr j"
    and rest: "cast_floats_as_ints_to_floats pf (AList.update k' (PyInt j) d) ks = Inr d'"
    by (auto split: option.splits sum.splits)
  from v j Cons.prems(2) have "k' \<noteq> k" by auto
  then have "map_of (AList.update k' (PyInt j) d) k = Some (PyArtifact a)"
    using Cons.prems(2) by (simp add: update_conv')
  with Cons.IH rest show ?case by blast
qed

text \<open>
  Claim C6, as the code has it. Whenever normalisation returns, an output that the raw
  message lists and that is declared a single artifact is bound to one artifact, built
  from the first artifact of its list, with the declared type attached; the list is then
  not empty, so that a message with zero artifacts for such an output makes normalisation
  fail. Further artifacts of the list are dropped, not rejected.
\<close>

theorem single_artifact_output_is_first_artifact:
  assumes run: "get_outputs_from_executor_output pf executor_output executor_input component_spec = Inr outputs"
    and dist: "distinct (map fst (artifacts executor_output))"
    and listed: "map_of (artifacts executor_output) name = Some artifact_list"
    and single: "pb_map_get False (output_definitions_artifacts component_spec) name = False"
  shows "\<exists>a rest d drest.
           artifact_list = a # rest \<and>
           pb_map_get [] (outputs_artifacts executor_input) name = d # drest \<and>
           map_of outputs name =
             Some (PyArtifact (create_artifact_instance pf (a\<lparr>artifact_type := artifact_type d\<rparr>)))"
proof -
  let ?ks = "map fst (filter (\<lambda>(output_param_name, t). t = NUMBER_INTEGER)
                            (output_definitions_parameters component_spec))"
  from run obtain typed merged ps as where
    typed: "add_type_to_artifact_lists executor_input (artifacts executor_output) = Inr typed"
    and merged: "merge_dsl_output_file_parameters_to_executor_output pf executor_input
                   (executor_output\<lparr>artifacts := typed\<rparr>) component_spec = Inr merged"
    and as: "dict_comprehension
             (\<lambda>artifact_name artifact_list.
                artifact_list_to_dsl_artifact pf artifact_list
                  (pb_map_get False (output_definitions_artifacts component_spec) artifact_name))
             (artifacts merged) = Inr as"
    and cast: "cast_floats_as_ints_to_floats pf (dict_merge ps as) ?ks = Inr outputs"
    by (auto simp: get_outputs_from_executor_output_def add_type_to_executor_output_def Let_def
             split: sum.splits)
  from merged have arts: "artifacts merged = typed"
    by (auto simp: merge_dsl_output_file_parameters_to_executor_output_def split: sum.splits)
  from add_type_to_artifact_lists_lookup[OF typed listed] obtain al' where
    al': "add_type_to_artifacts (pb_map_get [] (outputs_artifacts executor_input) name) artifact_list = Inr al'"
    and look: "map_of typed name = Some al'" by blast
  from dict_comprehension_lookup[OF as] look arts single obtain y where
    y: "artifact_list_to_dsl_artifact pf al' False = Inr y" and asy: "map_of as name = Some y"
    by fastforce
  from y have "al' \<noteq> []" by (auto simp: artifact_list_to_dsl_artifact_def)
  with add_type_to_artifacts_result[OF al'] obtain a rest d drest rest' where
    shape: "artifact_list = a # rest" "pb_map_get [] (outputs_artifacts executor_input) name = d # drest"
      "al' = a\<lparr>artifact_type := artifact_type d\<rparr> # rest'" by auto
  with y have yv: "y = PyArtifact (create_artifact_instance pf (a\<lparr>artifact_type := artifact_type d\<rparr>))"
    by (auto simp: artifact_list_to_dsl_artifact_def)
  have "distinct (map fst as)"
    using dict_comprehension_keys[OF as] add_type_to_artifact_lists_keys[OF typed] arts dist by simp
  then have "map_of (dict_merge ps as) name = Some y"
    using asy by (simp add: dict_merge_lookup)
  with cast_keeps_artifact[OF cast] yv shape show ?thesis by blast
qed

theorem single_artifact_output_is_first_artifact_witness:
  "get_outputs_from_executor_output example_platform example_executor_output
     example_executor_input example_component_spec = Inr example_outputs \<and>
   (\<exists>a rest d drest.
      [example_model] = a # rest \<and>
      pb_map_get [] (outputs_artifacts example_executor_input) ''model'' = d # drest \<and>
      map_of example_outputs ''model'' =
        Some (PyArtifact (create_artifact_instance example_platform
                (a\<lparr>artifact_type := artifact_type d\<rparr>))))"
proof -
  have run: "get_outputs_from_executor_output example_platform example_executor_output
     example_executor_input example_component_spec = Inr example_outputs"
    by (simp add: example_defs normalizer_defs)
  have dist: "distinct (map fst (artifacts example_executor_output))"
    by (simp add: example_defs)
  have listed: "map_of (artifacts example_executor_output) ''model'' = Some [example_model]"
    by (simp add: example_defs)
  have single: "pb_map_get False (output_definitions_artifacts example_component_spec) ''model'' = False"
    by (simp add: example_defs pb_map_get_def)
  from single_artifact_output_is_first_artifact[OF run dist listed single] run
  show ?thesis by blast
qed

text \<open>
  Claim C6 as stated fails: a message with two artifacts for an output declared a single
  artifact is not rejected. Normalisation returns, and binds the output to the first of
  the two artifacts.
\<close>

theorem extra_artifacts_not_rejected:
  "get_outputs_from_executor_output example_platform example_executor_output_two
     example_executor_input example_component_spec = Inr example_outputs \<and>
   artifact_list_to_dsl_artifact example_platform [example_model, example_extra_model] False =
     Inr (PyArtifact example_model)"
  by (simp add: example_defs normalizer_defs)

subsection \<open>The task sequencer\<close>

lemma producers_first_snoc:
  assumes "producers_first task_map done" and "distinct (map fst task_map)"
    and "task \<in> set task_map" and "ready done task"
  shows "producers_first task_map (done @ [fst task])"
  unfolding producers_first_def
proof (intro allI impI, elim conjE)
  fix pre n post task'
  assume split: "done @ [fst task] = pre @ n # post" and mem: "(n, task') \<in> set task_map"
  show "set (producers task') \<subseteq> set pre"
  proof (cases post rule: rev_cases)
    case Nil
    with split have pre: "pre = done" and n: "n = fst task" by auto
    from assms(3) n have "(n, snd task) \<in> set task_map" by simp
    with assms(2) mem have "task' = snd task"
      by (force simp: distinct_map inj_on_def)
    with assms(4) pre show ?thesis by (auto simp: ready_def list_all_iff)
  next
    case (snoc post' x)
    with split have "done = pre @ n # post'" by auto
    with assms(1) mem show ?thesis unfolding producers_first_def by blast
  qed
qed

lemma finite_dependency_edges: "finite (dependency_edges task_map)"
proof -
  have "dependency_edges task_map \<subseteq>
          (\<Union>task \<in> set task_map. set (producers (snd task))) \<times> fst ` set task_map"
    by (force simp: dependency_edges_def)
  then show ?thesis by (rule finite_subset) auto
qed

lemma some_task_ready:
  assumes wf: "wf (dependency_edges task_map)" and wform: "well_formed task_map"
    and sub: "set pending \<subseteq> set task_map"
    and cover: "set done \<union> fst ` set pending = fst ` set task_map"
    and ne: "pending \<noteq> []"
  shows "\<exists>task \<in> set pending. ready done task"
proof -
  from ne obtain x where "x \<in> fst ` set pending" by (cases pending) auto
  with wf obtain z where z: "z \<in> fst ` set pending"
    and min: "\<And>y. (y, z) \<in> dependency_edges task_map \<Longrightarrow> y \<notin> fst ` set pending"
    by (rule wfE_min) blast
  from z obtain task where task: "task \<in> set pending" and fst: "fst task = z" by auto
  have "ready done task"
    unfolding ready_def list_all_iff
  proof
    fix p assume p: "p \<in> set (producers (snd task))"
    from task sub fst have "(z, snd task) \<in> set task_map" by auto
    with p have "(p, z) \<in> dependency_edges task_map" by (auto simp: dependency_edges_def)
    then have "p \<notin> fst ` set pending" by (rule min)
    moreover from wform task sub p have "p \<in> fst ` set task_map"
      by (auto simp: well_formed_def list_all_iff)
    ultimately show "p \<in> set done" using cover by blast
  qed
  with task show ?thesis by blast
qed

lemma sequence_tasks_total:
  assumes wf: "wf (dependency_edges task_map)" and wform: "well_formed task_map"
  shows "set pending \<subseteq> set task_map \<Longrightarrow> distinct (map fst pending) \<Longrightarrow>
         set done \<union> fst ` set pending = fst ` set task_map \<Longrightarrow>
         set done \<inter> fst ` set pending = {} \<Longrightarrow> distinct done \<Longrightarrow> producers_first task_map done \<Longrightarrow>
         \<exists>order. sequence_tasks pending done = Inr order \<and> distinct order \<and>
                 set order = fst ` set task_map \<and> producers_first task_map order"
proof (induction pending "done" rule: sequence_tasks.induct)
  case (1 pending "done")
  show ?case
  proof (cases "pending = []")
    case True
    with "1.prems" show ?thesis by (auto simp: sequence_tasks.simps[of "[]"])
  next
    case False
    from some_task_ready[OF wf wform "1.prems"(1,3) False]
    obtain task where found: "find (ready done) pending = Some task"
      by (cases "find (ready done) pending") (auto simp: find_None_iff)
    then have mem: "task \<in> set pending" and rdy: "ready done task"
      by (auto simp: find_Some_iff)
    from "1.prems"(2) have dp: "distinct pending" by (simp add: distinct_map)
    from "1.prems"(2) have inj: "inj_on fst (set pending)" by (simp add: distinct_map)
    have set_rm: "set (remove1 task pending) = set pending - {task}"
      using dp by simp
    have img: "fst ` set (remove1 task pending) = fst ` set pending - {fst task}"
      using inj mem unfolding set_rm by (auto simp: inj_on_def)
    have a: "set (remove1 task pending) \<subseteq> set task_map"
      using "1.prems"(1) set_rm by auto
    have b: "distinct (map fst (remove1 task pending))"
      using "1.prems"(2) by (simp add: distinct_map set_rm inj_on_def)
    have c: "set (done @ [fst task]) \<union> fst ` set (remove1 task pending) = fst ` set task_map"
      using "1.prems"(3) mem unfolding img by auto
    have d: "set (done @ [fst task]) \<inter> fst ` set (remove1 task pending) = {}"
      using "1.prems"(4) unfolding img by auto
    have e: "distinct (done @ [fst task])"
      using "1.prems"(4,5) mem by auto
    have f: "producers_first task_map (done @ [fst task])"
      using "1.prems"(6) wform mem "1.prems"(1) rdy
      by (intro producers_first_snoc) (auto simp: well_formed_def)
    from "1.IH"[OF False found a b c d e f] False found show ?thesis
      by (simp add: sequence_tasks.simps[of pending])
  qed
qed

lemma index_of_less: "a \<in> set xs \<Longrightarrow> index_of (xs @ ys) a < length xs"
  by (induction xs) auto

lemma index_of_first: "b \<notin> set xs \<Longrightarrow> index_of (xs @ b # ys) b = length xs"
  by (induction xs) auto

text \<open>
  Claim C3. For a well-formed task map (distinct task names, every producer a task of
  the map) whose dependency edges are acyclic, the sequencer returns a stack holding
  every task once, and in the order in which the runner pops it every task stands after
  each task one of whose outputs its input wiring references: for each dependency edge
  (a, b), the index of a is below the index of b.
\<close>

theorem topological_order_respects_dependencies:
  assumes "well_formed task_map" and "acyclic (dependency_edges task_map)"
  shows "\<exists>sorted_tasks.
           topological_sort_tasks task_map = Inr sorted_tasks \<and>
           distinct sorted_tasks \<and> set sorted_tasks = fst ` set task_map \<and>
           (\<forall>(a, b) \<in> dependency_edges task_map.
              index_of (dispatch_order sorted_tasks) a < index_of (dispatch_order sorted_tasks) b)"
proof -
  from assms(2) have wf: "wf (dependency_edges task_map)"
    by (simp add: finite_acyclic_wf finite_dependency_edges)
  have "\<exists>order. sequence_tasks task_map [] = Inr order \<and> distinct order \<and>
                 set order = fst ` set task_map \<and> producers_first task_map order"
    using assms(1) by (intro sequence_tasks_total[OF wf assms(1)]) (auto simp: well_formed_def producers_first_def)
  then obtain order where run: "sequence_tasks task_map [] = Inr order" and dist: "distinct order"
    and all: "set order = fst ` set task_map" and resp: "producers_first task_map order" by blast
  have "index_of order a < index_of order b" if edge: "(a, b) \<in> dependency_edges task_map" for a b
  proof -
    from edge obtain task where task: "(b, task) \<in> set task_map" and a: "a \<in> set (producers task)"
      by (auto simp: dependency_edges_def)
    from task all have "b \<in> set order" by force
    then obtain pre post where split: "order = pre @ b # post" by (auto dest: split_list)
    with resp task a have "a \<in> set pre" unfolding producers_first_def by blast
    moreover from dist split have "b \<notin> set pre" by auto
    ultimately show ?thesis unfolding split by (simp add: index_of_less index_of_first)
  qed
  with run dist all show ?thesis
    by (auto simp: topological_sort_tasks_def dispatch_order_def)
qed

lemma example_producers:
  "producers (plain_task c (TaskOutputParameter p k)) = [p]"
  "producers (plain_task c (RuntimeValueConstant v)) = []"
  "producers (plain_task c (ComponentInputParameter n)) = []"
  by (simp_all add: producers_def plain_task_def)

lemma train_producers:
  "producers \<lparr>component_ref_name = ''comp-train-graph'',
          inputs_parameters = [(''data'', TaskOutputParameter ''prepare'' ''out'')],
          inputs_artifacts = [], trigger_policy_condition = [], iterator = None\<rparr> = [''prepare'']"
  by (simp add: producers_def)

lemma example_edges:
  assumes "(a, b) \<in> dependency_edges example_tasks"
  shows "(a = ''train'' \<and> b = ''report'') \<or> (a = ''prepare'' \<and> b = ''train'')"
proof -
  from assms obtain task where mem: "(b, task) \<in> set example_tasks"
    and a: "a \<in> set (producers task)"
    unfolding dependency_edges_def by blast
  from mem consider
    "b = ''report''" "task = plain_task ''comp-report'' (TaskOutputParameter ''train'' ''score'')"
    | "b = ''train''" "producers task = [''prepare'']"
    | "b = ''prepare''" "task = plain_task ''comp-prepare'' (RuntimeValueConstant (NumberValue (FloatVal 3)))"
    unfolding example_tasks_def using train_producers by fastforce
  then show ?thesis
    using a by cases (simp_all add: example_producers)
qed

lemma example_acyclic: "acyclic (dependency_edges example_tasks)"
proof (rule acyclicI_order)
  fix a b assume "(a, b) \<in> dependency_edges example_tasks"
  then have "(a = ''train'' \<and> b = ''report'') \<or> (a = ''prepare'' \<and> b = ''train'')"
    by (rule example_edges)
  then show "(if b = ''prepare'' then 2 else if b = ''train'' then 1 else (0::nat)) <
             (if a = ''prepare'' then 2 else if a = ''train'' then 1 else 0)"
    by (elim disjE conjE) simp_all
qed

theorem topological_order_respects_dependencies_witness:
  "topological_sort_tasks example_tasks = Inr [''report'', ''train'', ''prepare''] \<and>
   index_of (dispatch_order [''report'', ''train'', ''prepare'']) ''prepare'' <
     index_of (dispatch_order [''report'', ''train'', ''prepare'']) ''train'' \<and>
   index_of (dispatch_order [''report'', ''train'', ''prepare'']) ''train'' <
     index_of (dispatch_order [''report'', ''train'', ''prepare'']) ''report''"
proof -
  have wf: "well_formed example_tasks"
    by (simp add: well_formed_def producers_def example_tasks_def plain_task_def)
  have "(''train'', snd (example_tasks ! 1)) \<in> set example_tasks"
    and "''prepare'' \<in> set (producers (snd (example_tasks ! 1)))"
    by (simp_all add: example_tasks_def train_producers)
  then have e1: "(''prepare'', ''train'') \<in> dependency_edges example_tasks"
    unfolding dependency_edges_def by blast
  have "(''report'', snd (example_tasks ! 0)) \<in> set example_tasks"
    and "''train'' \<in> set (producers (snd (example_tasks ! 0)))"
    by (simp_all add: example_tasks_def example_producers)
  then have e2: "(''train'', ''report'') \<in> dependency_edges example_tasks"
    unfolding dependency_edges_def by blast
  from topological_order_respects_dependencies[OF wf example_acyclic] obtain sorted_tasks where
    run: "topological_sort_tasks example_tasks = Inr sorted_tasks"
    and ordered: "\<forall>(a, b) \<in> dependency_edges example_tasks.
              index_of (dispatch_order sorted_tasks) a < index_of (dispatch_order sorted_tasks) b"
    by blast
  have eval: "topological_sort_tasks example_tasks = Inr [''report'', ''train'', ''prepare'']"
    by code_simp
  with run have sorted: "sorted_tasks = [''report'', ''train'', ''prepare'']" by simp
  from bspec[OF ordered e1] bspec[OF ordered e2] eval show ?thesis
    unfolding sorted by simp
qed

subsection \<open>Failure of a task\<close>

lemma all_succeeded_simps [simp]:
  "all_succeeded []"
  "all_succeeded (xs @ ys) \<longleftrightarrow> all_succeeded xs \<and> all_succeeded ys"
  "all_succeeded [(n, x)] \<longleftrightarrow> x = Inr SUCCESS"
  by (auto simp: all_succeeded_def)

lemma ended_by_raise_Nil [simp]: "ended_by_raise []"
  by (simp add: ended_by_raise_def)

lemma ended_by_raise_append:
  "all_succeeded xs \<Longrightarrow> ended_by_raise ys \<Longrightarrow> ended_by_raise (xs @ ys)"
  by (auto simp: ended_by_raise_def butlast_append)

lemma all_succeeded_raise: "all_succeeded xs \<Longrightarrow> ended_by_raise xs"
  by (simp add: ended_by_raise_def)

lemma ended_by_failure_append:
  "all_succeeded xs \<Longrightarrow> ended_by_failure ys f \<Longrightarrow> ended_by_failure (xs @ ys) f"
  by (auto simp: ended_by_failure_def butlast_append)

lemma loop_trace_append:
  "all_succeeded xs \<Longrightarrow> loop_trace ys r \<Longrightarrow> loop_trace (xs @ ys) r"
  by (auto simp: loop_trace_def ended_by_raise_append ended_by_failure_append
           split: sum.splits option.splits)

lemma call_collaborator_trace:
  "call_collaborator run task_name component_name component_spec executor_spec arguments st = (r, st') \<Longrightarrow>
   \<exists>new. dispatched st' = dispatched st @ new \<and> task_trace new r"
  by (auto simp: call_collaborator_def task_trace_def ended_by_raise_def ended_by_failure_def
           split: prod.splits sum.splits status.splits)

lemma run_trace:
  "\<And>r store' st'. run_dag cb depth dag_component_spec executors components dag_arguments io_store st = (r, store', st') \<Longrightarrow>
     \<exists>new. dispatched st' = dispatched st @ new \<and> dag_trace new r"
  "\<And>lr store' st'. run_tasks cb depth dag_spec executors components sorted_tasks io_store st = (lr, store', st') \<Longrightarrow>
     \<exists>new. dispatched st' = dispatched st @ new \<and> loop_trace new lr"
  "\<And>r st'. dispatch_task cb depth task_name task_spec executors components io_store st = (r, st') \<Longrightarrow>
     \<exists>new. dispatched st' = dispatched st @ new \<and> task_trace new r"
proof (induction cb depth dag_component_spec executors components dag_arguments io_store st
    and cb depth dag_spec executors components sorted_tasks io_store st
    and cb depth task_name task_spec executors components io_store st
    rule: run_dag_run_tasks_dispatch_task.induct)
  case (1 cb dag_component_spec executors components dag_arguments io_store st)
  then show ?case by (auto simp: dag_trace_def)
next
  case (2 cb depth dag_component_spec executors components dag_arguments io_store st)
  show ?case
  proof (cases "bind_defaults_to_dag_arguments dag_arguments dag_component_spec")
    case (Inl e)
    with "2.prems" show ?thesis by (auto simp: dag_trace_def)
  next
    case (Inr with_defaults)
    let ?store1 = "fold (\<lambda>(k, v). put_parent_input k v) with_defaults io_store"
    show ?thesis
    proof (cases "topological_sort_tasks (tasks (dag_of dag_component_spec))")
      case (Inl e)
      with Inr "2.prems" show ?thesis by (auto simp: dag_trace_def Let_def)
    next
      case sorted: (Inr sorted_tasks)
      obtain lr store2 st2 where loop:
        "run_tasks cb depth (dag_of dag_component_spec) executors components
           (dispatch_order sorted_tasks) ?store1 st = (lr, store2, st2)"
        by (metis prod_cases3)
      from "2.IH"[OF Inr refl refl sorted loop] obtain new where
        new: "dispatched st2 = dispatched st @ new" and tr: "loop_trace new lr" by blast
      from "2.prems" Inr sorted loop have res:
        "(r, store', st') =
           (case lr of
              Inl e \<Rightarrow> (Inl e, store2, st2)
            | Inr None \<Rightarrow>
                (case get_dag_outputs (dag_of dag_component_spec) store2 of
                   Inl e \<Rightarrow> (Inl e, store2, st2)
                 | Inr dag_outputs \<Rightarrow> (Inr (dag_outputs, SUCCESS, None), store2, st2))
            | Inr (Some early) \<Rightarrow> (Inr early, store2, st2))"
        by (auto simp: Let_def split: sum.splits option.splits)
      with tr have "st' = st2 \<and> dag_trace new r"
        by (auto simp: loop_trace_def dag_trace_def all_succeeded_raise
                 split: sum.splits option.splits)
      with new show ?thesis by blast
    qed
  qed
next
  case (3 cb depth dag_spec executors components io_store st)
  then show ?case by (auto simp: loop_trace_def)
next
  case (4 cb depth dag_spec executors components task_name sorted_tasks io_store st)
  let ?task = "pb_map_get empty_task_spec (tasks dag_spec) task_name"
  show ?case
  proof (cases "validate_task_spec_not_loop_or_condition ?task")
    case (Inl e)
    with "4.prems" show ?thesis by (auto simp: loop_trace_def Let_def)
  next
    case (Inr u)
    obtain r1 st1 where disp:
      "dispatch_task cb depth task_name ?task executors components io_store st = (r1, st1)"
      by (metis surj_pair)
    from "4.IH"(1)[OF refl Inr disp] obtain new1 where
      new1: "dispatched st1 = dispatched st @ new1" and tr1: "task_trace new1 r1" by blast
    show ?thesis
    proof (cases r1)
      case (Inl e)
      with "4.prems" Inr disp tr1 new1 show ?thesis
        by (auto simp: Let_def loop_trace_def task_trace_def)
    next
      case res: (Inr res)
      obtain outputs task_status fail_task_name where
        r: "res = (outputs, task_status, fail_task_name)" by (metis prod_cases3)
      show ?thesis
      proof (cases task_status)
        case FAILURE
        with "4.prems" Inr disp tr1 new1 res r show ?thesis
          by (auto simp: Let_def loop_trace_def task_trace_def)
      next
        case SUCCESS
        with "4.prems" Inr disp res r have rest:
          "run_tasks cb depth dag_spec executors components sorted_tasks
             (put_task_outputs task_name outputs io_store) st1 = (lr, store', st')"
          by (auto simp: Let_def)
        from SUCCESS have ne: "task_status \<noteq> FAILURE" by simp
        have "\<exists>new. dispatched st' = dispatched st1 @ new \<and> loop_trace new lr"
          by (rule "4.IH"(2)[OF refl Inr disp[symmetric] res r[symmetric] refl ne rest])
        then obtain new2 where new2: "dispatched st' = dispatched st1 @ new2"
          and tr2: "loop_trace new2 lr" by blast
        from tr1 res r SUCCESS have "all_succeeded new1" by (simp add: task_trace_def)
        then have "loop_trace (new1 @ new2) lr" using tr2 by (rule loop_trace_append)
        with new1 new2 show ?thesis by auto
      qed
    qed
  qed
next
  case (5 cb depth task_name task_spec executors components io_store st)
  let ?name = "component_ref_name task_spec"
  show ?case
  proof (cases "map_of components ?name")
    case None
    with "5.prems" show ?thesis by (auto simp: Let_def task_trace_def)
  next
    case (Some component_spec)
    show ?thesis
    proof (cases "implementation component_spec")
      case (Dag dag)
      show ?thesis
      proof (cases "make_task_arguments task_spec io_store")
        case (Inl e)
        with "5.prems" Some Dag show ?thesis by (auto simp: Let_def task_trace_def)
      next
        case (Inr dag_arguments)
        obtain r2 store2 st2 where sub:
          "run_dag cb depth component_spec executors components dag_arguments empty_io_store st =
             (r2, store2, st2)" by (metis prod_cases3)
        from "5.IH"[OF refl Some Dag Inr sub] obtain new where
          new: "dispatched st2 = dispatched st @ new" and tr: "dag_trace new r2" by blast
        from "5.prems" Some Dag Inr sub have "r = r2" "st' = st2" by (auto simp: Let_def)
        moreover from tr have "task_trace new r2"
          by (auto simp: dag_trace_def task_trace_def split: sum.splits status.splits)
        ultimately show ?thesis using new by blast
      qed
    next
      case (ExecutorLabel executor_key)
      with "5.prems" Some consider
        (raised) e where "r = Inl e" "st' = st"
        | (called) run executor_spec arguments where
          "call_collaborator run task_name ?name component_spec executor_spec arguments st = (r, st')"
        by (auto simp: Let_def split: option.splits sum.splits executor_spec.splits)
      then show ?thesis
      proof cases
        case raised
        then show ?thesis by (auto simp: task_trace_def)
      next
        case called
        then show ?thesis by (rule call_collaborator_trace)
      qed
    next
      case ImplementationNotSet
      with "5.prems" Some show ?thesis by (auto simp: Let_def task_trace_def)
    qed
  qed
qed

text \<open>
  Claim C1. In a run of \<^verbatim>\<open>run_dag\<close> that starts with an empty trace, if some task, at
  whatever depth of nested graphs, was handed to a collaborator and returned
  \<^verbatim>\<open>FAILURE\<close>, then the top-level call returns the empty output map, \<^verbatim>\<open>FAILURE\<close> and the
  name of that very task, and that task is the last one of the trace: every task
  dispatched before it succeeded, and no task is dispatched after it.
\<close>

theorem failing_task_stops_run:
  assumes run: "run_dag cb depth dag_component_spec executors components dag_arguments io_store st =
                  (result, io_store', st')"
    and fresh: "dispatched st = []"
    and failed: "(task_name, Inr FAILURE) \<in> set (dispatched st')"
  shows "result = Inr ([], FAILURE, Some task_name) \<and>
         (\<exists>earlier. dispatched st' = earlier @ [(task_name, Inr FAILURE)] \<and> all_succeeded earlier)"
proof -
  from run_trace(1)[OF run] fresh have tr: "dag_trace (dispatched st') result" by auto
  from failed have ne: "dispatched st' \<noteq> []" by auto
  then have split: "dispatched st' = butlast (dispatched st') @ [last (dispatched st')]" by simp
  have not_all: "\<not> all_succeeded (dispatched st')"
    using failed by (force simp: all_succeeded_def list_all_iff)
  have in_front: "all_succeeded (butlast (dispatched st')) \<Longrightarrow>
                  last (dispatched st') = (task_name, Inr FAILURE)"
  proof -
    assume front: "all_succeeded (butlast (dispatched st'))"
    from failed split have "(task_name, Inr FAILURE) \<in> set (butlast (dispatched st')) \<or>
      (task_name, Inr FAILURE) = last (dispatched st')"
      by (metis Un_iff empty_iff empty_set insert_iff list.simps(15) set_append)
    with front show ?thesis by (auto simp: all_succeeded_def list_all_iff)
  qed
  show ?thesis
  proof (cases result)
    case (Inl e)
    with tr not_all in_front show ?thesis by (auto simp: dag_trace_def ended_by_raise_def)
  next
    case (Inr res)
    obtain outputs task_status fail_task_name where
      res: "res = (outputs, task_status, fail_task_name)" by (metis prod_cases3)
    show ?thesis
    proof (cases task_status)
      case SUCCESS
      with tr Inr res not_all show ?thesis by (simp add: dag_trace_def)
    next
      case FAILURE
      with tr Inr res have out: "outputs = []"
        and ended: "ended_by_failure (dispatched st') fail_task_name"
        by (simp_all add: dag_trace_def)
      from ended obtain n where n: "fail_task_name = Some n" "last (dispatched st') = (n, Inr FAILURE)"
        and front: "all_succeeded (butlast (dispatched st'))"
        by (auto simp: ended_by_failure_def)
      from in_front[OF front] n have "n = task_name" by simp
      with Inr res FAILURE out n front split show ?thesis by metis
    qed
  qed
qed

text \<open>
  In the example the failing task \<open>fit\<close> sits in the nested graph of the task \<open>train\<close>:
  the run names \<open>fit\<close>, not \<open>train\<close>, and neither \<open>evaluate\<close> nor \<open>report\<close> is
  dispatched.
\<close>

theorem failing_task_stops_run_witness:
  "run_dag (example_collaborators ''comp-fit'') 3 example_pipeline example_executors
     example_components [] empty_io_store initial_state =
     (Inr ([], FAILURE, Some ''fit''),
      \<lparr>parent_input_data = [], task_output_data = [(''prepare'', [(''out'', PyFloat (FloatVal 3))])]\<rparr>,
      \<lparr>world = 2, dispatched = [(''prepare'', Inr SUCCESS), (''fit'', Inr FAILURE)]\<rparr>) \<and>
   (\<exists>earlier. [(''prepare'', Inr SUCCESS), (''fit'', Inr FAILURE)] = earlier @ [(''fit'', Inr FAILURE)] \<and>
      all_succeeded earlier)"
proof -
  have run: "run_dag (example_collaborators ''comp-fit'') 3 example_pipeline example_executors
     example_components [] empty_io_store initial_state =
     (Inr ([], FAILURE, Some ''fit''),
      \<lparr>parent_input_data = [], task_output_data = [(''prepare'', [(''out'', PyFloat (FloatVal 3))])]\<rparr>,
      \<lparr>world = 2, dispatched = [(''prepare'', Inr SUCCESS), (''fit'', Inr FAILURE)]\<rparr>)"
    by code_simp
  have fresh: "dispatched initial_state = []" by (simp add: initial_state_def)
  have failed: "(''fit'', Inr FAILURE) \<in>
     set (dispatched \<lparr>world = 2::nat, dispatched = [(''prepare'', Inr SUCCESS), (''fit'', Inr FAILURE)]\<rparr>)"
    by simp
  from failing_task_stops_run[OF run fresh failed] run show ?thesis by simp
qed

subsection \<open>Unsupported control flow\<close>

lemma run_tasks_append:
  "run_tasks cb depth dag_spec executors components (earlier @ later) io_store st =
     (case run_tasks cb depth dag_spec executors components earlier io_store st of
        (Inr None, io_store1, st1) \<Rightarrow> run_tasks cb depth dag_spec executors components later io_store1 st1
      | other \<Rightarrow> other)"
proof (induction earlier arbitrary: io_store st)
  case Nil
  then show ?case by simp
next
  case (Cons task_name earlier)
  show ?case
    by (simp add: Let_def Cons.IH split: sum.splits prod.splits option.splits)
qed

text \<open>
  Claim C4, as the code has it. The check for a condition or an iterator is made inside
  the loop, for the task about to be dispatched. Let the arguments of a graph bind, let
  the sequencer return an order, and let the loop over the tasks sequenced before some
  task run to its end. When that task carries a condition or an iterator, \<^verbatim>\<open>run_dag\<close>
  raises the error of the check. The store and the state are those left by the earlier
  tasks, all of which were dispatched and succeeded: neither the rejected task nor any
  task sequenced after it is dispatched.
\<close>

theorem unsupported_task_rejected_when_reached:
  assumes bound: "bind_defaults_to_dag_arguments dag_arguments dag_component_spec = Inr with_defaults"
    and sorted: "topological_sort_tasks (tasks (dag_of dag_component_spec)) = Inr sorted_tasks"
    and order: "dispatch_order sorted_tasks = earlier @ task_name # later"
    and earlier:
      "run_tasks cb depth (dag_of dag_component_spec) executors components earlier
         (fold (\<lambda>(k, v). put_parent_input k v) with_defaults io_store) st =
         (Inr None, io_store1, st1)"
    and unsupported:
      "trigger_policy_condition
         (pb_map_get empty_task_spec (tasks (dag_of dag_component_spec)) task_name) \<noteq> [] \<or>
       iterator (pb_map_get empty_task_spec (tasks (dag_of dag_component_spec)) task_name) \<noteq> None"
  shows "run_dag cb (Suc depth) dag_component_spec executors components dag_arguments io_store st =
           (Inl (ValueError
                  (if trigger_policy_condition
                        (pb_map_get empty_task_spec (tasks (dag_of dag_component_spec)) task_name) \<noteq> []
                   then ''dsl.Condition is not supported by local pipeline execution.''
                   else ''dsl.ParallelFor is not supported by local pipeline execution.'')),
            io_store1, st1) \<and>
         (\<exists>new. dispatched st1 = dispatched st @ new \<and> all_succeeded new)"
proof -
  let ?dag = "dag_of dag_component_spec"
  let ?message = "if trigger_policy_condition (pb_map_get empty_task_spec (tasks ?dag) task_name) \<noteq> []
                   then ''dsl.Condition is not supported by local pipeline execution.''
                   else ''dsl.ParallelFor is not supported by local pipeline execution.''"
  from unsupported have
    "validate_task_spec_not_loop_or_condition (pb_map_get empty_task_spec (tasks ?dag) task_name) =
       Inl (ValueError ?message)"
    by (simp add: validate_task_spec_not_loop_or_condition_def)
  then have "run_tasks cb depth ?dag executors components (task_name # later) io_store1 st1 =
               (Inl (ValueError ?message), io_store1, st1)"
    by (simp add: Let_def)
  with earlier have loop:
    "run_tasks cb depth ?dag executors components (earlier @ task_name # later)
       (fold (\<lambda>(k, v). put_parent_input k v) with_defaults io_store) st =
       (Inl (ValueError ?message), io_store1, st1)"
    by (simp add: run_tasks_append)
  have run: "run_dag cb (Suc depth) dag_component_spec executors components dag_arguments io_store st =
               (Inl (ValueError ?message), io_store1, st1)"
    using bound sorted order loop by (simp add: Let_def)
  from run_trace(2)[OF earlier] have "\<exists>new. dispatched st1 = dispatched st @ new \<and> all_succeeded new"
    by (simp add: loop_trace_def)
  with run show ?thesis by blast
qed

text \<open>In the example \<open>prepare\<close> is sequenced before the conditional task: it is dispatched
  and succeeds, and the run then raises.\<close>

theorem unsupported_task_rejected_when_reached_witness:
  "topological_sort_tasks (tasks (dag_of example_conditional_pipeline)) =
     Inr [''maybe-report'', ''prepare''] \<and>
   run_tasks (example_collaborators ''none'') 2 (dag_of example_conditional_pipeline)
     example_executors example_components [''prepare''] empty_io_store initial_state =
     (Inr None,
      \<lparr>parent_input_data = [], task_output_data = [(''prepare'', [(''out'', PyFloat (FloatVal 3))])]\<rparr>,
      \<lparr>world = 1, dispatched = [(''prepare'', Inr SUCCESS)]\<rparr>) \<and>
   run_dag (example_collaborators ''none'') (Suc 2) example_conditional_pipeline example_executors
     example_components [] empty_io_store initial_state =
     (Inl (ValueError ''dsl.Condition is not supported by local pipeline execution.''),
      \<lparr>parent_input_data = [], task_output_data = [(''prepare'', [(''out'', PyFloat (FloatVal 3))])]\<rparr>,
      \<lparr>world = 1, dispatched = [(''prepare'', Inr SUCCESS)]\<rparr>)"
proof -
  have bound: "bind_defaults_to_dag_arguments ([] :: (string \<times> runtime_artifact py) list)
                 example_conditional_pipeline = Inr []"
    by code_simp
  have sorted: "topological_sort_tasks (tasks (dag_of example_conditional_pipeline)) =
                  Inr [''maybe-report'', ''prepare'']"
    by code_simp
  have order: "dispatch_order [''maybe-report'', ''prepare''] = [''prepare''] @ ''maybe-report'' # []"
    by (simp add: dispatch_order_def)
  have earlier: "run_tasks (example_collaborators ''none'') 2 (dag_of example_conditional_pipeline)
     example_executors example_components [''prepare'']
     (fold (\<lambda>(k, v). put_parent_input k v) [] empty_io_store) initial_state =
     (Inr None,
      \<lparr>parent_input_data = [], task_output_data = [(''prepare'', [(''out'', PyFloat (FloatVal 3))])]\<rparr>,
      \<lparr>world = 1, dispatched = [(''prepare'', Inr SUCCESS)]\<rparr>)"
    by code_simp
  have unsupported:
    "trigger_policy_condition
       (pb_map_get empty_task_spec (tasks (dag_of example_conditional_pipeline)) ''maybe-report'') \<noteq> [] \<or>
     iterator
       (pb_map_get empty_task_spec (tasks (dag_of example_conditional_pipeline)) ''maybe-report'') \<noteq> None"
    by (simp add: pb_map_get_def dag_of_def example_conditional_pipeline_def plain_task_def)
  from unsupported have cond:
    "trigger_policy_condition
       (pb_map_get empty_task_spec (tasks (dag_of example_conditional_pipeline)) ''maybe-report'') \<noteq> []"
    by (simp add: pb_map_get_def dag_of_def example_conditional_pipeline_def plain_task_def)
  from unsupported_task_rejected_when_reached[OF bound sorted order earlier unsupported] cond
    sorted earlier
  show ?thesis by simp
qed

text \<open>
  Claim C4 as stated fails: in a graph whose second task carries a condition, the first
  task is dispatched, and succeeds, before the error is raised.
\<close>

theorem task_dispatched_before_rejection:
  "fst (run_dag (example_collaborators ''none'') 3 example_conditional_pipeline example_executors
          example_components [] empty_io_store initial_state) =
     Inl (ValueError ''dsl.Condition is not supported by local pipeline execution.'') \<and>
   dispatched (snd (snd (run_dag (example_collaborators ''none'') 3 example_conditional_pipeline
                           example_executors example_components [] empty_io_store initial_state))) =
     [(''prepare'', Inr SUCCESS)]"
  by code_simp

subsection \<open>Inputs of a graph and of a task\<close>

text \<open>
  Claim C5 fails on the code. \<^verbatim>\<open>bind_defaults_to_dag_arguments\<close> builds its result from
  the declared input parameters alone, so an artifact argument supplied to the graph is
  not in the result and is never written to the store; a task of the graph that reads
  it as a \<^verbatim>\<open>component_input_artifact\<close> then finds no parent input.
\<close>

theorem artifact_argument_not_bound:
  "bind_defaults_to_dag_arguments
     [(''n'', PyInt 3), (''dataset'', PyArtifact example_model)] example_inputs_pipeline =
     Inr [(''n'', PyInt 3)] \<and>
   make_task_arguments example_artifact_task
     (fold (\<lambda>(k, v). put_parent_input k v) [(''n'', PyInt 3 :: runtime_artifact py)] empty_io_store) =
     Inl (ValueError ''Parent pipeline input argument not found: dataset'')"
  by code_simp

lemma make_arguments_other:
  "make_arguments resolve items acc = Inr args \<Longrightarrow> k \<notin> fst ` set items \<Longrightarrow>
   map_of args k = map_of acc k"
  by (induction items arbitrary: acc) (auto simp: update_conv' split: sum.splits)

lemma make_arguments_lookup:
  "make_arguments resolve items acc = Inr args \<Longrightarrow> distinct (map fst items) \<Longrightarrow>
   (k, spec) \<in> set items \<Longrightarrow> \<exists>v. resolve k spec = Inr v \<and> map_of args k = Some v"
proof (induction items arbitrary: acc)
  case Nil
  then show ?case by simp
next
  case (Cons item items)
  obtain k0 spec0 where item: "item = (k0, spec0)" by (cases item)
  from Cons.prems(1) item obtain v0 where v0: "resolve k0 spec0 = Inr v0"
    and rest: "make_arguments resolve items (AList.update k0 v0 acc) = Inr args"
    by (auto split: sum.splits)
  from Cons.prems(2) item have dist: "distinct (map fst items)" and fresh: "k0 \<notin> fst ` set items"
    by auto
  show ?case
  proof (cases "(k, spec) \<in> set items")
    case True
    from Cons.IH[OF rest dist True] show ?thesis .
  next
    case False
    with Cons.prems(3) item have "k = k0" "spec = spec0" by auto
    with make_arguments_other[OF rest fresh] v0 show ?thesis by (simp add: update_conv')
  qed
qed

lemma bind_defaults_other:
  "bind_defaults dag_arguments specs acc = Inr d \<Longrightarrow> k \<notin> fst ` set specs \<Longrightarrow>
   map_of d k = map_of acc k"
  by (induction specs arbitrary: acc) (auto simp: update_conv' split: sum.splits option.splits)

lemma bind_defaults_lookup:
  "bind_defaults dag_arguments specs acc = Inr d \<Longrightarrow> distinct (map fst specs) \<Longrightarrow>
   (k, spec) \<in> set specs \<Longrightarrow>
   (case map_of dag_arguments k of
      None \<Rightarrow> \<exists>v. pb2_value_to_python (default_value spec) = Inr v \<and> map_of d k = Some v
    | Some v \<Rightarrow> map_of d k = Some v)"
proof (induction specs arbitrary: acc)
  case Nil
  then show ?case by simp
next
  case (Cons item specs)
  obtain k0 spec0 where item: "item = (k0, spec0)" by (cases item)
  from Cons.prems(2) item have dist: "distinct (map fst specs)" and fresh: "k0 \<notin> fst ` set specs"
    by auto
  show ?case
  proof (cases "(k, spec) \<in> set specs")
    case True
    from Cons.prems(1) item obtain acc' where "bind_defaults dag_arguments specs acc' = Inr d"
      by (auto split: sum.splits option.splits)
    from Cons.IH[OF this dist True] show ?thesis .
  next
    case False
    with Cons.prems(3) item have eq: "k = k0" "spec = spec0" by auto
    show ?thesis
    proof (cases "map_of dag_arguments k0")
      case None
      with Cons.prems(1) item obtain v where v: "pb2_value_to_python (default_value spec0) = Inr v"
        and rest: "bind_defaults dag_arguments specs (AList.update k0 v acc) = Inr d"
        by (auto split: sum.splits)
      from bind_defaults_other[OF rest fresh] v None eq show ?thesis by (simp add: update_conv')
    next
      case (Some v)
      with Cons.prems(1) item have
        rest: "bind_defaults dag_arguments specs (AList.update k0 v acc) = Inr d" by simp
      from bind_defaults_other[OF rest fresh] Some eq show ?thesis by (simp add: update_conv')
    qed
  qed
qed

lemma cast_other_key:
  "cast_floats_as_ints_to_floats pf d ks = Inr d' \<Longrightarrow> k \<notin> set ks \<Longrightarrow> map_of d' k = map_of d k"
proof (induction ks arbitrary: d)
  case Nil
  then show ?case by simp
next
  case (Cons k' ks)
  from Cons.prems(1) obtain v j where v: "map_of d k' = Some v" and j: "py_int pf v = Inr j"
    and rest: "cast_floats_as_ints_to_floats pf (AList.update k' (PyInt j) d) ks = Inr d'"
    by (auto split: option.splits sum.splits)
  from Cons.prems(2) have "k \<notin> set ks" "k' \<noteq> k" by auto
  with Cons.IH[OF rest] show ?case by (simp add: update_conv')
qed

lemma merge_loop_other:
  "merge_output_file_parameters pf cs ps vals = Inr vals' \<Longrightarrow>
   \<forall>f. (k, f) \<in> set ps \<longrightarrow> files pf f = None \<Longrightarrow> map_of vals' k = map_of vals k"
proof (induction ps arbitrary: vals)
  case Nil
  then show ?case by simp
next
  case (Cons p ps)
  obtain k0 f0 where p: "p = (k0, f0)" by (cases p)
  from Cons.prems(2) have rest: "\<forall>f. (k, f) \<in> set ps \<longrightarrow> files pf f = None" by auto
  show ?case
  proof (cases "files pf f0")
    case None
    with Cons.prems(1) p have "merge_output_file_parameters pf cs ps vals = Inr vals'" by simp
    from Cons.IH[OF this rest] show ?thesis .
  next
    case (Some raw)
    with Cons.prems(2) p have ne: "k0 \<noteq> k" by auto
    from Some Cons.prems(1) p obtain v where
      "merge_output_file_parameters pf cs ps (AList.update k0 v vals) = Inr vals'"
      by (auto simp: Let_def split: sum.splits)
    from Cons.IH[OF this rest] ne show ?thesis by (simp add: update_conv')
  qed
qed

lemma dict_merge_other:
  "k \<notin> fst ` set b \<Longrightarrow> map_of (dict_merge a b) k = map_of a k"
proof (induction b arbitrary: a)
  case Nil
  then show ?case by (simp add: dict_merge_def)
next
  case (Cons p b)
  obtain k0 v0 where p: "p = (k0, v0)" by (cases p)
  have "dict_merge a (p # b) = dict_merge (AList.update k0 v0 a) b"
    by (simp add: dict_merge_def p)
  with Cons p show ?case by (simp add: update_conv')
qed

lemma undeclared_output_not_cast:
  assumes run: "get_outputs_from_executor_output pf executor_output executor_input component_spec =
                  Inr outputs"
    and inline: "map_of (parameter_values executor_output) name = Some w"
    and nofile: "\<forall>f. (name, f) \<in> set (outputs_parameters executor_input) \<longrightarrow> files pf f = None"
    and noart: "name \<notin> fst ` set (artifacts executor_output)"
    and undeclared: "(name, NUMBER_INTEGER) \<notin> set (output_definitions_parameters component_spec)"
  shows "\<exists>v. pb2_value_to_python w = Inr v \<and> map_of outputs name = Some v"
proof -
  let ?ks = "map fst (filter (\<lambda>(output_param_name, t). t = NUMBER_INTEGER)
                            (output_definitions_parameters component_spec))"
  from run obtain typed merged ps as where
    typed: "add_type_to_artifact_lists executor_input (artifacts executor_output) = Inr typed"
    and merged: "merge_dsl_output_file_parameters_to_executor_output pf executor_input
                   (executor_output\<lparr>artifacts := typed\<rparr>) component_spec = Inr merged"
    and ps: "dict_comprehension (\<lambda>param_name v. pb2_value_to_python v)
               (parameter_values merged) = Inr ps"
    and as: "dict_comprehension
             (\<lambda>artifact_name artifact_list.
                artifact_list_to_dsl_artifact pf artifact_list
                  (pb_map_get False (output_definitions_artifacts component_spec) artifact_name))
             (artifacts merged) = Inr as"
    and cast: "cast_floats_as_ints_to_floats pf (dict_merge ps as) ?ks = Inr outputs"
    by (auto simp: get_outputs_from_executor_output_def add_type_to_executor_output_def Let_def
             split: sum.splits)
  from merged obtain vals where
    loop: "merge_output_file_parameters pf component_spec (outputs_parameters executor_input)
             (parameter_values executor_output) = Inr vals"
    and pv: "parameter_values merged = vals" and arts: "artifacts merged = typed"
    by (auto simp: merge_dsl_output_file_parameters_to_executor_output_def split: sum.splits)
  from merge_loop_other[OF loop nofile] inline pv
  have "map_of (parameter_values merged) name = Some w" by simp
  from dict_comprehension_lookup[OF ps this] obtain v where
    v: "pb2_value_to_python w = Inr v" and look: "map_of ps name = Some v" by blast
  have "map fst as = map fst (artifacts executor_output)"
    using dict_comprehension_keys[OF as] add_type_to_artifact_lists_keys[OF typed] arts by simp
  then have "fst ` set as = fst ` set (artifacts executor_output)"
    by (metis set_map)
  with noart have "name \<notin> fst ` set as" by simp
  then have "map_of (dict_merge ps as) name = Some v"
    using look by (simp add: dict_merge_other)
  moreover from undeclared have "name \<notin> set ?ks" by auto
  ultimately have "map_of outputs name = Some v"
    using cast_other_key[OF cast] by simp
  with v show ?thesis by blast
qed

lemma parent_inputs_of_fold:
  "parent_input_data (fold (\<lambda>(k, v). put_parent_input k v) d store) =
     dict_merge (parent_input_data store) d"
proof (induction d arbitrary: store)
  case Nil
  then show ?case by (simp add: dict_merge_def)
next
  case (Cons p d)
  obtain k v where p: "p = (k, v)" by (cases p)
  have "parent_input_data (fold (\<lambda>(k, v). put_parent_input k v) (p # d) store) =
          dict_merge (parent_input_data (put_parent_input k v store)) d"
    by (simp add: p Cons.IH)
  also have "parent_input_data (put_parent_input k v store) = AList.update k v (parent_input_data store)"
    by (simp add: put_parent_input_def)
  also have "dict_merge (AList.update k v (parent_input_data store)) d =
               dict_merge (parent_input_data store) (p # d)"
    by (simp add: dict_merge_def p)
  finally show ?case .
qed

lemma parent_inputs_after_put_task_outputs:
  "parent_input_data (put_task_outputs task_name outputs store) = parent_input_data store"
  unfolding put_task_outputs_def
  by (induction outputs arbitrary: store) (auto simp: put_task_output_def)

lemma bind_defaults_distinct:
  "bind_defaults dag_arguments specs acc = Inr d \<Longrightarrow> distinct (map fst acc) \<Longrightarrow>
   distinct (map fst d)"
  by (induction specs arbitrary: acc) (auto simp: distinct_update split: sum.splits option.splits)

lemma parent_input_after_binding:
  assumes bound: "bind_defaults_to_dag_arguments dag_arguments dag_component_spec = Inr with_defaults"
    and dist: "distinct (map fst (input_definitions_parameters dag_component_spec))"
    and decl: "(parent, spec) \<in> set (input_definitions_parameters dag_component_spec)"
    and store: "parent_input_data store =
                  parent_input_data (fold (\<lambda>(k, v). put_parent_input k v) with_defaults io_store)"
  shows "case map_of dag_arguments parent of
           None \<Rightarrow> \<exists>v. pb2_value_to_python (default_value spec) = Inr v \<and>
                      map_of (parent_input_data store) parent = Some v
         | Some v \<Rightarrow> map_of (parent_input_data store) parent = Some v"
proof -
  from bound have loop:
    "bind_defaults dag_arguments (input_definitions_parameters dag_component_spec) [] = Inr with_defaults"
    by (simp add: bind_defaults_to_dag_arguments_def)
  from bind_defaults_distinct[OF loop] have d: "distinct (map fst with_defaults)" by simp
  have look: "map_of (parent_input_data store) =
                map_of (parent_input_data io_store) ++ map_of with_defaults"
    unfolding store parent_inputs_of_fold using d by (rule dict_merge_lookup)
  from bind_defaults_lookup[OF loop dist decl] show ?thesis
    unfolding look by (auto split: option.splits)
qed

text \<open>
  Claim C10, as the code has it. Decoding a number-tagged wire value yields a float. The
  normaliser casts the declared integer outputs and nothing else: an inline numeric
  output that is not declared \<^verbatim>\<open>NUMBER_INTEGER\<close> (and has no output file and no artifact of
  its name) comes out as the float that decoding yields. Resolving the arguments of a
  task casts nothing: an input bound to a numeric constant is delivered as the float
  that decoding yields, and an input bound to a parent input is delivered as the value
  that the store holds. That value is the one \<^verbatim>\<open>run_dag\<close> wrote at graph entry: the
  decoded float of the declared default when the argument was absent, and the supplied
  value, whatever it is, when the argument was supplied.
\<close>

theorem number_input_delivered_uncast:
  "(pb2_value_to_python (NumberValue x) :: error + 'a py) = Inr (PyFloat x) \<and>
   (get_outputs_from_executor_output pf executor_output executor_input component_spec =
      Inr (outputs :: (string \<times> 'a py) list) \<and>
    map_of (parameter_values executor_output) output_name = Some (NumberValue x) \<and>
    (\<forall>output_file. (output_name, output_file) \<in> set (outputs_parameters executor_input) \<longrightarrow>
       files pf output_file = None) \<and>
    output_name \<notin> fst ` set (artifacts executor_output) \<and>
    (output_name, NUMBER_INTEGER) \<notin> set (output_definitions_parameters component_spec) \<longrightarrow>
      map_of outputs output_name = Some (PyFloat x)) \<and>
   (make_task_arguments task_spec store = Inr (task_arguments :: (string \<times> 'a py) list) \<and>
    distinct (map fst (inputs_parameters task_spec)) \<and>
    input_name \<notin> fst ` set (inputs_artifacts task_spec) \<longrightarrow>
      ((input_name, RuntimeValueConstant (NumberValue x)) \<in> set (inputs_parameters task_spec) \<longrightarrow>
         map_of task_arguments input_name = Some (PyFloat x)) \<and>
      ((input_name, ComponentInputParameter parent) \<in> set (inputs_parameters task_spec) \<longrightarrow>
         (\<exists>v. map_of (parent_input_data store) parent = Some v \<and>
              map_of task_arguments input_name = Some v))) \<and>
   (bind_defaults_to_dag_arguments dag_arguments dag_component_spec = Inr with_defaults \<and>
    distinct (map fst (input_definitions_parameters dag_component_spec)) \<and>
    (parent, spec) \<in> set (input_definitions_parameters dag_component_spec) \<and>
    parent_input_data store =
      parent_input_data (fold (\<lambda>(k, v). put_parent_input k v) with_defaults io_store) \<and>
    make_task_arguments task_spec store = Inr task_arguments \<and>
    distinct (map fst (inputs_parameters task_spec)) \<and>
    input_name \<notin> fst ` set (inputs_artifacts task_spec) \<and>
    (input_name, ComponentInputParameter parent) \<in> set (inputs_parameters task_spec) \<longrightarrow>
      (map_of dag_arguments parent = None \<and> default_value spec = NumberValue x \<longrightarrow>
         map_of task_arguments input_name = Some (PyFloat x)) \<and>
      (\<forall>v. map_of dag_arguments parent = Some v \<longrightarrow> map_of task_arguments input_name = Some v))"
proof -
  have decode: "(pb2_value_to_python (NumberValue x) :: error + 'a py) = Inr (PyFloat x)" by simp
  have normalise: "map_of outputs output_name = Some (PyFloat x)"
    if "get_outputs_from_executor_output pf executor_output executor_input component_spec = Inr outputs"
      "map_of (parameter_values executor_output) output_name = Some (NumberValue x)"
      "\<forall>output_file. (output_name, output_file) \<in> set (outputs_parameters executor_input) \<longrightarrow>
         files pf output_file = None"
      "output_name \<notin> fst ` set (artifacts executor_output)"
      "(output_name, NUMBER_INTEGER) \<notin> set (output_definitions_parameters component_spec)"
    using undeclared_output_not_cast[OF that] by simp
  have resolve:
    "((input_name, RuntimeValueConstant (NumberValue x)) \<in> set (inputs_parameters task_spec) \<longrightarrow>
         map_of task_arguments input_name = Some (PyFloat x)) \<and>
      ((input_name, ComponentInputParameter parent) \<in> set (inputs_parameters task_spec) \<longrightarrow>
         (\<exists>v. map_of (parent_input_data store) parent = Some v \<and>
              map_of task_arguments input_name = Some v))"
    if run: "make_task_arguments task_spec store = Inr task_arguments"
      and dist: "distinct (map fst (inputs_parameters task_spec))"
      and noart: "input_name \<notin> fst ` set (inputs_artifacts task_spec)"
  proof -
    from run obtain params where
      params: "make_arguments (parameter_argument store) (inputs_parameters task_spec) [] = Inr params"
      and arts: "make_arguments (artifact_argument store) (inputs_artifacts task_spec) params =
                   Inr task_arguments"
      by (auto simp: make_task_arguments_def split: sum.splits)
    from make_arguments_other[OF arts noart]
    have same: "map_of task_arguments input_name = map_of params input_name" .
    show ?thesis
    proof (intro conjI impI)
      assume "(input_name, RuntimeValueConstant (NumberValue x)) \<in> set (inputs_parameters task_spec)"
      from make_arguments_lookup[OF params dist this] same
      show "map_of task_arguments input_name = Some (PyFloat x)" by auto
    next
      assume "(input_name, ComponentInputParameter parent) \<in> set (inputs_parameters task_spec)"
      from make_arguments_lookup[OF params dist this] same
      show "\<exists>v. map_of (parent_input_data store) parent = Some v \<and>
                map_of task_arguments input_name = Some v"
        by (auto simp: get_parent_input_def split: option.splits)
    qed
  qed
  have entry:
    "(map_of dag_arguments parent = None \<and> default_value spec = NumberValue x \<longrightarrow>
         map_of task_arguments input_name = Some (PyFloat x)) \<and>
      (\<forall>v. map_of dag_arguments parent = Some v \<longrightarrow> map_of task_arguments input_name = Some v)"
    if bound: "bind_defaults_to_dag_arguments dag_arguments dag_component_spec = Inr with_defaults"
      and ddist: "distinct (map fst (input_definitions_parameters dag_component_spec))"
      and decl: "(parent, spec) \<in> set (input_definitions_parameters dag_component_spec)"
      and stored: "parent_input_data store =
        parent_input_data (fold (\<lambda>(k, v). put_parent_input k v) with_defaults io_store)"
      and run: "make_task_arguments task_spec store = Inr task_arguments"
      and dist: "distinct (map fst (inputs_parameters task_spec))"
      and noart: "input_name \<notin> fst ` set (inputs_artifacts task_spec)"
      and wired: "(input_name, ComponentInputParameter parent) \<in> set (inputs_parameters task_spec)"
  proof -
    from resolve[OF run dist noart] wired obtain v where
      v: "map_of (parent_input_data store) parent = Some v"
      and arg: "map_of task_arguments input_name = Some v" by blast
    from parent_input_after_binding[OF bound ddist decl stored] v arg show ?thesis
      by (auto split: option.splits)
  qed
  from decode normalise resolve entry show ?thesis by blast
qed

text \<open>In the example the wire number 3.0 of an output declared \<^verbatim>\<open>NUMBER_DOUBLE\<close> stays the
  float 3.0; the constant 3.0 bound to the integer-declared input of \<open>comp-count\<close> is
  delivered as the float 3.0; and so is the default 3.0 of the graph input \<open>n\<close>, which
  the step echoes into the result of the run.\<close>

theorem number_input_delivered_uncast_witness:
  "get_outputs_from_executor_output example_platform example_count_output example_count_input
     (example_count_spec\<lparr>output_definitions_parameters := [(''count'', NUMBER_DOUBLE)]\<rparr>) =
     Inr [(''count'', PyFloat (FloatVal 3))] \<and>
   make_task_arguments (plain_task ''comp-count'' (RuntimeValueConstant (NumberValue (FloatVal 3))))
     (empty_io_store :: runtime_artifact io_store) = Inr [(''x'', PyFloat (FloatVal 3))] \<and>
   bind_defaults_to_dag_arguments ([] :: (string \<times> runtime_artifact py) list) example_inputs_pipeline =
     Inr [(''n'', PyFloat (FloatVal 3))] \<and>
   make_task_arguments (plain_task ''comp-count'' (ComponentInputParameter ''n''))
     (fold (\<lambda>(k, v). put_parent_input k v) [(''n'', PyFloat (FloatVal 3) :: runtime_artifact py)]
        empty_io_store) = Inr [(''x'', PyFloat (FloatVal 3))] \<and>
   run_dag (example_collaborators ''none'') 3 example_inputs_pipeline example_executors
     example_components [] empty_io_store initial_state =
     (Inr ([(''result'', PyFloat (FloatVal 3))], SUCCESS, None),
      \<lparr>parent_input_data = [(''n'', PyFloat (FloatVal 3))],
         task_output_data = [(''echo'', [(''out'', PyFloat (FloatVal 3))])]\<rparr>,
      \<lparr>world = 1, dispatched = [(''echo'', Inr SUCCESS)]\<rparr>)"
proof -
  let ?spec = "example_count_spec\<lparr>output_definitions_parameters := [(''count'', NUMBER_DOUBLE)]\<rparr>"
  let ?const = "plain_task ''comp-count'' (RuntimeValueConstant (NumberValue (FloatVal 3)))"
  let ?echo = "plain_task ''comp-count'' (ComponentInputParameter ''n'')"
  let ?store = "fold (\<lambda>(k, v). put_parent_input k v)
                  [(''n'', PyFloat (FloatVal 3) :: runtime_artifact py)] empty_io_store"
  let ?decl = "\<lparr>parameter_type = NUMBER_INTEGER, default_value = NumberValue (FloatVal 3)\<rparr>"
  have norm: "get_outputs_from_executor_output example_platform example_count_output
                example_count_input ?spec = Inr [(''count'', PyFloat (FloatVal 3))]"
    by code_simp
  have inline: "map_of (parameter_values example_count_output) ''count'' = Some (NumberValue (FloatVal 3))"
    and nofile: "\<forall>output_file. (''count'', output_file) \<in> set (outputs_parameters example_count_input) \<longrightarrow>
                   files example_platform output_file = None"
    and noartifact: "''count'' \<notin> fst ` set (artifacts example_count_output)"
    and undeclared: "(''count'', NUMBER_INTEGER) \<notin> set (output_definitions_parameters ?spec)"
    by (simp_all add: example_count_output_def example_count_input_def example_count_spec_def
          example_platform_def)
  have const: "make_task_arguments ?const (empty_io_store :: runtime_artifact io_store) =
                 Inr [(''x'', PyFloat (FloatVal 3))]"
    by code_simp
  have cdist: "distinct (map fst (inputs_parameters ?const))"
    and cnoart: "''x'' \<notin> fst ` set (inputs_artifacts ?const)"
    and cwired: "(''x'', RuntimeValueConstant (NumberValue (FloatVal 3))) \<in> set (inputs_parameters ?const)"
    by (simp_all add: plain_task_def)
  have bound: "bind_defaults_to_dag_arguments ([] :: (string \<times> runtime_artifact py) list)
                 example_inputs_pipeline = Inr [(''n'', PyFloat (FloatVal 3))]"
    by code_simp
  have ddist: "distinct (map fst (input_definitions_parameters example_inputs_pipeline))"
    and decl: "(''n'', ?decl) \<in> set (input_definitions_parameters example_inputs_pipeline)"
    by (simp_all add: example_inputs_pipeline_def)
  have echo: "make_task_arguments ?echo ?store = Inr [(''x'', PyFloat (FloatVal 3))]"
    by code_simp
  have edist: "distinct (map fst (inputs_parameters ?echo))"
    and enoart: "''x'' \<notin> fst ` set (inputs_artifacts ?echo)"
    and ewired: "(''x'', ComponentInputParameter ''n'') \<in> set (inputs_parameters ?echo)"
    by (simp_all add: plain_task_def)
  have run: "run_dag (example_collaborators ''none'') 3 example_inputs_pipeline example_executors
     example_components [] empty_io_store initial_state =
     (Inr ([(''result'', PyFloat (FloatVal 3))], SUCCESS, None),
      \<lparr>parent_input_data = [(''n'', PyFloat (FloatVal 3))],
         task_output_data = [(''echo'', [(''out'', PyFloat (FloatVal 3))])]\<rparr>,
      \<lparr>world = 1, dispatched = [(''echo'', Inr SUCCESS)]\<rparr>)"
    by code_simp
  note th1 = number_input_delivered_uncast
    [where x = "FloatVal 3" and pf = example_platform and executor_output = example_count_output
       and executor_input = example_count_input and component_spec = ?spec
       and outputs = "[(''count'', PyFloat (FloatVal 3))]" and output_name = "''count''"
       and task_spec = ?const and store = "empty_io_store" and input_name = "''x''"
       and task_arguments = "[(''x'', PyFloat (FloatVal 3))]"]
  from th1[THEN conjunct2, THEN conjunct1, THEN mp,
           OF conjI[OF norm conjI[OF inline conjI[OF nofile conjI[OF noartifact undeclared]]]]]
  have a: "map_of [(''count'', PyFloat (FloatVal 3) :: runtime_artifact py)] ''count'' =
             Some (PyFloat (FloatVal 3))" .
  from th1[THEN conjunct2, THEN conjunct2, THEN conjunct1, THEN mp,
           OF conjI[OF const conjI[OF cdist cnoart]], THEN conjunct1, THEN mp, OF cwired]
  have b: "map_of [(''x'', PyFloat (FloatVal 3) :: runtime_artifact py)] ''x'' =
             Some (PyFloat (FloatVal 3))" .
  note th2 = number_input_delivered_uncast
    [where x = "FloatVal 3" and task_spec = ?echo and store = ?store and input_name = "''x''"
       and task_arguments = "[(''x'', PyFloat (FloatVal 3))]" and parent = "''n''"
       and dag_arguments = "[]" and dag_component_spec = example_inputs_pipeline
       and with_defaults = "[(''n'', PyFloat (FloatVal 3))]" and spec = ?decl
       and io_store = empty_io_store]
  from th2[THEN conjunct2, THEN conjunct2, THEN conjunct2, THEN mp,
           OF conjI[OF bound conjI[OF ddist conjI[OF decl conjI[OF refl
                conjI[OF echo conjI[OF edist conjI[OF enoart ewired]]]]]]],
           THEN conjunct1]
  have c: "map_of [] ''n'' = (None :: runtime_artifact py option) \<and>
           default_value ?decl = NumberValue (FloatVal 3) \<longrightarrow>
           map_of [(''x'', PyFloat (FloatVal 3) :: runtime_artifact py)] ''x'' =
             Some (PyFloat (FloatVal 3))" .
  from norm const bound echo run a b c show ?thesis by simp
qed

text \<open>
  Claim C10 as stated fails for a parent input that was supplied as a native integer: it
  reaches the task as that integer, not as a float.
\<close>

theorem supplied_integer_delivered_as_integer:
  "make_task_arguments (plain_task ''comp-count'' (ComponentInputParameter ''n''))
     (put_parent_input ''n'' (PyInt 3 :: runtime_artifact py) empty_io_store) = Inr [(''x'', PyInt 3)] \<and>
   run_dag (example_collaborators ''none'') 3 example_inputs_pipeline example_executors
     example_components [(''n'', PyInt 3)] empty_io_store initial_state =
     (Inr ([(''result'', PyInt 3)], SUCCESS, None),
      \<lparr>parent_input_data = [(''n'', PyInt 3)], task_output_data = [(''echo'', [(''out'', PyInt 3)])]\<rparr>,
      \<lparr>world = 1, dispatched = [(''echo'', Inr SUCCESS)]\<rparr>)"
  by code_simp

end
